theory Spec2Isabelle
  imports Complex_Main "HOL-Library.Sublist"
begin

text \<open>
  A shallow embedding of the opportunity-scan and execution-gating core of Titan:
  the chain registry, the loan-sizing guard, the profit engine, the bridge-edge builder,
  the execution modes (paper, live, hybrid) and the retrying submission of the execution
  manager. Python exceptions are values of \<open>py_error\<close>; a function that can raise returns
  a sum with the error on the left. Objects that are mutated are passed in and returned.
\<close>

section \<open>Python values shared by the modules\<close>

datatype py_error = OverflowError | KeyError string | IndexError | DecimalOverflow

text \<open>\<open>os.getenv\<close>: the process environment, a partial map from names to values.\<close>

type_synonym environ = "string \<rightharpoonup> string"

text \<open>
  Round-half-even of the quotient \<open>n / d\<close> to an integer: the rounding of IEEE 754 binary64
  arithmetic and of the decimal context (\<open>ROUND_HALF_EVEN\<close>).
\<close>

definition round_half_even :: "nat \<Rightarrow> nat \<Rightarrow> nat" where
  "round_half_even n d =
     (let q = n div d; r = n mod d in
      if 2 * r < d then q
      else if 2 * r > d then q + 1
      else if even q then q else q + 1)"

text \<open>Sequencing of calls that can raise: the first exception ends the computation.\<close>

definition and_then :: "'e + 'a \<Rightarrow> ('a \<Rightarrow> 'e + 'b) \<Rightarrow> 'e + 'b" where
  "and_then r f = (case r of Inl e \<Rightarrow> Inl e | Inr x \<Rightarrow> f x)"

section \<open>Chain execution registry (core/chain\_registry.py)\<close>

datatype ChainExecutionState = ENABLED | CONFIGURED | DISABLED

text \<open>The class constant \<open>CHAIN_STATES\<close>: a dictionary from chain id to state.\<close>

definition CHAIN_STATES :: "int \<rightharpoonup> ChainExecutionState" where
  "CHAIN_STATES = [137 \<mapsto> ENABLED, 1 \<mapsto> CONFIGURED, 42161 \<mapsto> CONFIGURED]"

record ChainMeta =
  name :: string
  native :: string
  rpc_env :: string
  wss_env :: string
  chain_id :: int

definition CHAIN_METADATA :: "int \<rightharpoonup> ChainMeta" where
  "CHAIN_METADATA =
     [1 \<mapsto> \<lparr>name = ''ethereum'', native = ''ETH'', rpc_env = ''RPC_ETHEREUM'',
             wss_env = ''WSS_ETHEREUM'', chain_id = 1\<rparr>,
      137 \<mapsto> \<lparr>name = ''polygon'', native = ''MATIC'', rpc_env = ''RPC_POLYGON'',
             wss_env = ''WSS_POLYGON'', chain_id = 137\<rparr>,
      42161 \<mapsto> \<lparr>name = ''arbitrum'', native = ''ETH'', rpc_env = ''RPC_ARBITRUM'',
             wss_env = ''WSS_ARBITRUM'', chain_id = 42161\<rparr>]"

text \<open>
  The instance state of a registry: the two dictionaries written by the health probe
  \<open>validate_rpc_health\<close>. The class methods below do not receive it.
\<close>

record ChainRegistry =
  validated_rpcs :: "int \<rightharpoonup> string"
  health_status :: "int \<rightharpoonup> bool"

definition is_execution_enabled :: "int \<Rightarrow> bool" where
  "is_execution_enabled cid = (CHAIN_STATES cid = Some ENABLED)"

definition is_configured :: "int \<Rightarrow> bool" where
  "is_configured cid = (CHAIN_STATES cid = Some ENABLED \<or> CHAIN_STATES cid = Some CONFIGURED)"

definition get_execution_state :: "int \<Rightarrow> ChainExecutionState" where
  "get_execution_state cid = (case CHAIN_STATES cid of None \<Rightarrow> DISABLED | Some s \<Rightarrow> s)"

subsection \<open>String operations used by \<open>get_rpc_url\<close>\<close>

text \<open>
  \<open>str.lower\<close> on the ASCII letters. Python lowers every cased code point, but the only
  code points outside ASCII whose lower case contains an ASCII letter give \<open>k\<close> and \<open>i\<close>,
  which do not occur in \<open>localhost\<close>; a string is a list of bytes here, and the bytes of a
  code point outside ASCII are left as they are.
\<close>

definition lower_char :: "char \<Rightarrow> char" where
  "lower_char c =
     (let n = (of_char c :: nat) in if 65 \<le> n \<and> n \<le> 90 then char_of (n + 32) else c)"

definition lower :: "string \<Rightarrow> string" where
  "lower s = map lower_char s"

text \<open>\<open>s.startswith(p)\<close>.\<close>

definition startswith :: "string \<Rightarrow> string \<Rightarrow> bool" where
  "startswith s p = (take (length p) s = p)"

text \<open>\<open>sub in s\<close> for strings: \<open>sub\<close> starts at some position of \<open>s\<close>.\<close>

fun contains :: "string \<Rightarrow> string \<Rightarrow> bool" where
  "contains sub [] = (sub = [])"
| "contains sub (c # cs) = (startswith (c # cs) sub \<or> contains sub cs)"

text \<open>
  \<open>get_rpc_url\<close>. The tests \<open>if not metadata\<close>, \<open>if not rpc_env_var\<close> and \<open>if rpc_url\<close>
  are Python truth tests: a missing entry and an empty string are both false. An
  environment variable that is set to the empty string skips the validation and is
  returned as it is.
\<close>

definition get_rpc_url :: "environ \<Rightarrow> int \<Rightarrow> string option" where
  "get_rpc_url getenv cid =
     (case CHAIN_METADATA cid of
        None \<Rightarrow> None
      | Some metadata \<Rightarrow>
          if rpc_env metadata = [] then None
          else (case getenv (rpc_env metadata) of
                  None \<Rightarrow> None
                | Some rpc_url \<Rightarrow>
                    if rpc_url \<noteq> [] then
                      if contains ''localhost'' (lower rpc_url) \<or> contains ''127.0.0.1'' rpc_url
                      then None
                      else if \<not> (startswith rpc_url ''http://'' \<or> startswith rpc_url ''https://'')
                      then None
                      else Some rpc_url
                    else Some rpc_url))"

section \<open>Loan-sizing guard (core/titan\_commander\_core.py)\<close>

text \<open>
  \<open>max_cap = int(pool_liquidity * self.MAX_TVL_SHARE)\<close> multiplies a Python \<open>int\<close> by the
  \<open>float\<close> \<open>0.20\<close>. Python converts the integer to the nearest binary64 number (ties to
  even; \<open>OverflowError\<close> when it is out of range), multiplies in binary64 (the exact product
  rounded to 53 significant bits, ties to even), and \<open>int\<close> truncates. A positive binary64
  number is an integer of at most 53 bits times a power of two, so the arithmetic is
  written out over the naturals.
\<close>

text \<open>\<open>int.bit_length\<close>.\<close>

fun bit_length :: "nat \<Rightarrow> nat" where
  "bit_length n = (if n = 0 then 0 else Suc (bit_length (n div 2)))"

declare bit_length.simps [simp del]

text \<open>The natural number \<open>n\<close> rounded to 53 significant bits, ties to even.\<close>

definition round53 :: "nat \<Rightarrow> nat" where
  "round53 n =
     (let b = bit_length n in
      if b \<le> 53 then n else round_half_even n (2 ^ (b - 53)) * 2 ^ (b - 53))"

text \<open>\<open>float(n)\<close> for a natural number \<open>n\<close>; the largest binary64 number is below \<open>2 ^ 1024\<close>.\<close>

definition float_of_int :: "nat \<Rightarrow> py_error + nat" where
  "float_of_int n = (if round53 n < 2 ^ 1024 then Inr (round53 n) else Inl OverflowError)"

text \<open>
  The binary64 literal \<open>0.20\<close> is \<open>3602879701896397 / 2 ^ 54\<close> (the nearest binary64 number
  to one fifth, slightly above it).
\<close>

definition MAX_TVL_SHARE_numerator :: nat where
  "MAX_TVL_SHARE_numerator = 3602879701896397"

text \<open>
  \<open>int(pool_liquidity * self.MAX_TVL_SHARE)\<close>: the product of \<open>float(pool_liquidity)\<close> and
  the numerator is rounded to 53 bits, and dividing by \<open>2 ^ 54\<close> (exact in binary64 at this
  magnitude) and truncating gives the integer.
\<close>

definition int_mul_share :: "nat \<Rightarrow> py_error + int" where
  "int_mul_share pool_liquidity =
     (case float_of_int pool_liquidity of
        Inl e \<Rightarrow> Inl e
      | Inr x \<Rightarrow> Inr (int (round53 (x * MAX_TVL_SHARE_numerator) div 2 ^ 54)))"

text \<open>
  \<open>optimize_loan_size\<close>. The sensor \<open>get_provider_tvl\<close> is the environment: \<open>None\<close> when the
  call raises, otherwise the balance it returns (an unsigned integer read from the
  chain). \<open>target_amount_raw\<close> is an integer, and \<open>decimals\<close> a natural number.
\<close>

definition optimize_loan_size :: "nat option \<Rightarrow> int \<Rightarrow> nat \<Rightarrow> py_error + int" where
  "optimize_loan_size tvl target_amount_raw decimals =
     (case tvl of
        None \<Rightarrow> Inr 0
      | Some pool_liquidity \<Rightarrow>
          if pool_liquidity = 0 then Inr 0
          else (case int_mul_share pool_liquidity of
                  Inl e \<Rightarrow> Inl e
                | Inr max_cap \<Rightarrow>
                    let requested_amount = target_amount_raw;
                        requested_amount =
                          (if requested_amount > max_cap then max_cap else requested_amount);
                        min_floor = 500 * 10 ^ decimals
                    in if requested_amount < min_floor then Inr 0 else Inr requested_amount))"

section \<open>Execution manager (execution/execution\_client.py)\<close>

text \<open>
  The JSON values a result dictionary holds, with Python's truth test. A dictionary is a
  partial map from keys to values, and \<open>d.get(k)\<close> is \<open>None\<close> for a missing key.
\<close>

datatype pyval = PNone | PBool bool | PInt int | PStr string

fun truthy :: "pyval \<Rightarrow> bool" where
  "truthy PNone = False"
| "truthy (PBool b) = b"
| "truthy (PInt i) = (i \<noteq> 0)"
| "truthy (PStr s) = (s \<noteq> [])"

type_synonym pydict = "string \<rightharpoonup> pyval"

definition dict_get :: "pydict \<Rightarrow> string \<Rightarrow> pyval" where
  "dict_get d k = (case d k of None \<Rightarrow> PNone | Some v \<Rightarrow> v)"

text \<open>
  One call of \<open>self.client.execute_signal(signal)\<close> either returns a result dictionary or
  raises. The client is the environment of \<open>submit_trade\<close>: a function from the attempt
  number to what that call does.
\<close>

datatype response = Returns pydict | Raises string

record Stats =
  sent :: int
  succeeded :: int
  failed :: int
  retried :: int

record ExecutionManager =
  max_retries :: int
  stats :: Stats

text \<open>What \<open>submit_trade\<close> does to the outside: calls of \<open>execute_signal\<close>, seconds slept.\<close>

record Effects =
  calls :: nat
  slept :: nat

text \<open>The dictionary \<open>{"success": False, "error": e}\<close>.\<close>

definition failure_dict :: "string \<Rightarrow> pydict" where
  "failure_dict e = [''success'' \<mapsto> PBool False, ''error'' \<mapsto> PStr e]"

text \<open>
  The loop \<open>for attempt in range(self.max_retries)\<close> of \<open>submit_trade\<close>, from \<open>attempt\<close> on.
  When the range is exhausted without a \<open>return\<close> (only when \<open>max_retries\<close> is not
  positive) the statement after the loop returns \<open>Max retries exceeded\<close>.
\<close>

function retry_loop ::
  "(int \<Rightarrow> response) \<Rightarrow> int \<Rightarrow> int \<Rightarrow> Stats \<Rightarrow> Effects \<Rightarrow> pydict \<times> Stats \<times> Effects" where
  "retry_loop client n attempt st fx =
     (if attempt < n then
        (case client attempt of
           Returns result \<Rightarrow>
             if truthy (dict_get result ''success'') then
               (result, st\<lparr>succeeded := succeeded st + 1\<rparr>, fx\<lparr>calls := Suc (calls fx)\<rparr>)
             else if attempt < n - 1 then
               retry_loop client n (attempt + 1) (st\<lparr>retried := retried st + 1\<rparr>)
                 (fx\<lparr>calls := Suc (calls fx), slept := Suc (slept fx)\<rparr>)
             else (result, st\<lparr>failed := failed st + 1\<rparr>, fx\<lparr>calls := Suc (calls fx)\<rparr>)
         | Raises e \<Rightarrow>
             if attempt < n - 1 then
               retry_loop client n (attempt + 1) (st\<lparr>retried := retried st + 1\<rparr>)
                 (fx\<lparr>calls := Suc (calls fx), slept := Suc (slept fx)\<rparr>)
             else (failure_dict e, st\<lparr>failed := failed st + 1\<rparr>, fx\<lparr>calls := Suc (calls fx)\<rparr>))
      else (failure_dict ''Max retries exceeded'', st, fx))"
  by pat_completeness auto
termination
  by (relation "measure (\<lambda>(client, n, attempt, st, fx). nat (n - attempt))") auto

declare retry_loop.simps [simp del]

definition submit_trade ::
  "ExecutionManager \<Rightarrow> (int \<Rightarrow> response) \<Rightarrow> pydict \<times> ExecutionManager \<times> Effects" where
  "submit_trade m client =
     (let st = (stats m)\<lparr>sent := sent (stats m) + 1\<rparr>;
          (result, st', fx) = retry_loop client (max_retries m) 0 st \<lparr>calls = 0, slept = 0\<rparr>
      in (result, m\<lparr>stats := st'\<rparr>, fx))"

text \<open>\<open>ExecutionManager(max_retries=n)\<close>: the counters start at zero; the default is 3.\<close>

definition new_manager :: "int \<Rightarrow> ExecutionManager" where
  "new_manager n = \<lparr>max_retries = n, stats = \<lparr>sent = 0, succeeded = 0, failed = 0, retried = 0\<rparr>\<rparr>"

text \<open>A sequence of completed calls of \<open>submit_trade\<close>, one client behaviour per call.\<close>

fun submit_trades :: "ExecutionManager \<Rightarrow> (int \<Rightarrow> response) list \<Rightarrow> ExecutionManager" where
  "submit_trades m [] = m"
| "submit_trades m (client # clients) = submit_trades (fst (snd (submit_trade m client))) clients"

text \<open>A call of \<open>execute_signal\<close> counts as a success when it returns a truthy \<open>success\<close>.\<close>

definition succeeds :: "response \<Rightarrow> bool" where
  "succeeds r =
     (case r of Returns result \<Rightarrow> truthy (dict_get result ''success'') | Raises e \<Rightarrow> False)"

text \<open>
  The response of the execution server to a trade its pre-flight validation rejects: no
  success, and the reason of the rejection.
\<close>

definition preflight_rejection :: response where
  "preflight_rejection = Returns (failure_dict ''Profit $4.99 below minimum $5.0'')"

section \<open>Python's \<open>decimal.Decimal\<close> under the context of the repository\<close>

text \<open>
  A finite \<open>Decimal\<close> is a signed coefficient and an exponent: \<open>Dec c e\<close> is \<open>c * 10 ^ e\<close>.
  (The special values and the sign of zero are left out: no operation below produces or
  tests them on finite operands.) \<open>Decimal(str(x))\<close> and \<open>Decimal("...")\<close> build the value
  exactly; comparisons are exact.
\<close>

datatype Decimal = Dec (coeff: int) (expo: int)

text \<open>The rational number a \<open>Decimal\<close> denotes.\<close>

definition dval :: "Decimal \<Rightarrow> rat" where
  "dval d = of_int (coeff d) * 10 powi expo d"

text \<open>
  The arithmetic context: \<open>getcontext().prec = 28\<close> (set in ml/brain.py, and the default),
  rounding \<open>ROUND_HALF_EVEN\<close>, \<open>Emax = 999999\<close>, \<open>Emin = -999999\<close>, \<open>Overflow\<close> trapped.
\<close>

definition prec :: int where "prec = 28"
definition Emax :: int where "Emax = 999999"
definition Emin :: int where "Emin = - 999999"
definition Etiny :: int where "Etiny = Emin - prec + 1"
definition Etop :: int where "Etop = Emax - prec + 1"

text \<open>The number of decimal digits of a natural number (\<open>len(str(n))\<close>, and 0 for 0).\<close>

fun ndigits :: "nat \<Rightarrow> nat" where
  "ndigits n = (if n = 0 then 0 else Suc (ndigits (n div 10)))"

declare ndigits.simps [simp del]

text \<open>
  The rounding every arithmetic operation applies to its exact result (\<open>Decimal._fix\<close>):
  a result with more than \<open>prec\<close> digits, or below the exponent \<open>Etiny\<close>, is rounded
  half-even to the exponent \<open>exp_min\<close>; a result above \<open>Emax\<close> raises \<open>Overflow\<close>.
\<close>

definition dec_fix :: "Decimal \<Rightarrow> py_error + Decimal" where
  "dec_fix d =
     (let c = coeff d; e = expo d in
      if c = 0 then Inr (Dec 0 (min (max e Etiny) Emax))
      else
        let exp_min = int (ndigits (nat \<bar>c\<bar>)) + e - prec in
        if exp_min > Etop then Inl DecimalOverflow
        else
          let exp_min = max exp_min Etiny in
          if e < exp_min then
            let q = round_half_even (nat \<bar>c\<bar>) (10 ^ nat (exp_min - e));
                carry = (int (ndigits q) > prec);
                q = (if carry then q div 10 else q);
                exp_min = (if carry then exp_min + 1 else exp_min)
            in if exp_min > Etop then Inl DecimalOverflow
               else Inr (Dec (sgn c * int q) exp_min)
          else Inr d)"

text \<open>The exact sum, product and negation, before rounding.\<close>

definition exact_add :: "Decimal \<Rightarrow> Decimal \<Rightarrow> Decimal" where
  "exact_add a b =
     (let e = min (expo a) (expo b)
      in Dec (coeff a * 10 ^ nat (expo a - e) + coeff b * 10 ^ nat (expo b - e)) e)"

definition exact_mul :: "Decimal \<Rightarrow> Decimal \<Rightarrow> Decimal" where
  "exact_mul a b = Dec (coeff a * coeff b) (expo a + expo b)"

definition neg :: "Decimal \<Rightarrow> Decimal" where
  "neg a = Dec (- coeff a) (expo a)"

text \<open>\<open>a + b\<close>, \<open>a - b\<close>, \<open>a * b\<close> and \<open>a < b\<close> on \<open>Decimal\<close>.\<close>

definition dec_add :: "Decimal \<Rightarrow> Decimal \<Rightarrow> py_error + Decimal" where
  "dec_add a b = dec_fix (exact_add a b)"

definition dec_sub :: "Decimal \<Rightarrow> Decimal \<Rightarrow> py_error + Decimal" where
  "dec_sub a b = dec_fix (exact_add a (neg b))"

definition dec_mul :: "Decimal \<Rightarrow> Decimal \<Rightarrow> py_error + Decimal" where
  "dec_mul a b = dec_fix (exact_mul a b)"

definition dec_less :: "Decimal \<Rightarrow> Decimal \<Rightarrow> bool" where
  "dec_less a b = (coeff (exact_add a (neg b)) < 0)"

text \<open>
  An exact result fits the context when the rounding leaves it as it is: at most \<open>prec\<close>
  digits, and an exponent within the range of the context.
\<close>

definition fits :: "Decimal \<Rightarrow> bool" where
  "fits d =
     (Etiny \<le> expo d \<and>
      (if coeff d = 0 then expo d \<le> Emax
       else int (ndigits (nat \<bar>coeff d\<bar>)) \<le> prec \<and>
            int (ndigits (nat \<bar>coeff d\<bar>)) + expo d - prec \<le> Etop))"

section \<open>Profit engine (ml/brain.py)\<close>

record ProfitResult =
  net_profit :: Decimal
  gross_spread :: Decimal
  total_fees :: Decimal
  is_profitable :: bool

text \<open>
  \<open>ProfitEngine.calculate_enhanced_profit\<close>; \<open>flash_fee\<close> is the attribute
  \<open>self.flash_fee\<close> (\<open>Decimal("0.0")\<close> by default). The arguments are \<open>Decimal\<close>s, as the
  caller passes them; an \<open>int\<close> argument is converted exactly when it meets a \<open>Decimal\<close>.
  The expression \<open>gross_revenue_usd - loan_cost_usd\<close> is evaluated twice, as in the source.
\<close>

definition calculate_enhanced_profit ::
  "Decimal \<Rightarrow> Decimal \<Rightarrow> Decimal \<Rightarrow> Decimal \<Rightarrow> Decimal \<Rightarrow> py_error + ProfitResult" where
  "calculate_enhanced_profit flash_fee amount amount_out bridge_fee_usd gas_cost_usd =
     (let gross_revenue_usd = amount_out;
          loan_cost_usd = amount
      in and_then (dec_mul amount flash_fee) (\<lambda>flash_fee_cost.
         and_then (dec_add bridge_fee_usd gas_cost_usd) (\<lambda>fees.
         and_then (dec_add fees flash_fee_cost) (\<lambda>total_operational_costs.
         and_then (dec_sub gross_revenue_usd loan_cost_usd) (\<lambda>spread.
         and_then (dec_sub spread total_operational_costs) (\<lambda>net.
         and_then (dec_sub gross_revenue_usd loan_cost_usd) (\<lambda>spread'.
           Inr \<lparr>net_profit = net, gross_spread = spread',
                total_fees = total_operational_costs,
                is_profitable = dec_less (Dec 0 0) net\<rparr>)))))))"

section \<open>Execution modes (core/execution\_modes.py)\<close>

datatype TradeStatus = PENDING | SIMULATED | SUBMITTED | CONFIRMED | FAILED | REVERTED

text \<open>
  A trade signal is a dictionary; the record has one optional field for each key the
  code reads or writes, \<open>None\<close> for a key that is absent. \<open>expected_profit\<close> and \<open>gas_cost\<close>
  hold the \<open>Decimal\<close> that \<open>Decimal(str(v))\<close> builds from the stored number, and
  \<open>confidence_score\<close> the rational value of the stored \<open>float\<close> (the comparison of two
  finite floats is the comparison of their values).
\<close>

record TradeSignal =
  chainId :: "int option"
  token :: "string option"
  amount :: "string option"
  protocols :: "int list option"
  routers :: "string list option"
  path :: "string list option"
  expected_profit :: "Decimal option"
  estimated_slippage_bps :: "int option"
  gas_cost :: "Decimal option"
  confidence_score :: "rat option"
  trade_id :: "string option"
  timestamp :: "string option"
  mode :: "string option"

text \<open>\<open>f in trade_signal\<close> for the keys of \<open>required_fields\<close>.\<close>

definition has_key :: "TradeSignal \<Rightarrow> string \<Rightarrow> bool" where
  "has_key s f =
     (if f = ''chainId'' then chainId s \<noteq> None
      else if f = ''token'' then token s \<noteq> None
      else if f = ''amount'' then amount s \<noteq> None
      else if f = ''protocols'' then protocols s \<noteq> None
      else if f = ''routers'' then routers s \<noteq> None
      else if f = ''path'' then path s \<noteq> None
      else False)"

definition required_fields :: "string list" where
  "required_fields = [''chainId'', ''token'', ''amount'', ''protocols'', ''routers'', ''path'']"

text \<open>
  The reason strings, with the values the f-strings interpolate:
  \<open>Profit $p below minimum $m\<close>, \<open>Slippage s BPS exceeds max m BPS\<close>,
  \<open>Max concurrent txs (m) reached\<close>, \<open>Missing required fields: [...]\<close>,
  \<open>PRIVATE_KEY not configured in .env\<close>,
  \<open>EXECUTOR_ADDRESS not configured - contract not deployed\<close>, \<open>All checks passed\<close>,
  \<open>Redis not available - cannot communicate with execution layer\<close> and
  \<open>Redis publish failed: ...\<close>.
\<close>

datatype reason =
    ProfitBelowMinimum Decimal Decimal
  | SlippageExceedsMax int int
  | MaxConcurrentTxs int
  | MissingRequiredFields "string list"
  | PrivateKeyNotConfigured
  | ExecutorAddressNotConfigured
  | AllChecksPassed
  | RedisNotAvailable
  | RedisPublishFailed

text \<open>
  The dictionary an executor returns. \<open>result_net_profit\<close> and \<open>capital\<close> hold the
  \<open>Decimal\<close> that the code converts with \<open>float\<close>.
\<close>

record TradeResult =
  result_trade_id :: string
  status :: TradeStatus
  error :: "reason option"
  is_paper :: bool
  result_timestamp :: "string option"
  result_expected_profit :: "Decimal option"
  result_net_profit :: "Decimal option"
  capital :: "Decimal option"
  tx_hash :: "string option"

text \<open>The result dictionary that the execution bot delivers to \<open>record_execution_result\<close>.\<close>

record ExecutionReport =
  report_status :: "string option"
  actual_profit :: "Decimal option"
  report_error :: "string option"

text \<open>The record of a paper trade (\<open>trade_record\<close>); the numbers are kept as \<open>Decimal\<close>s.\<close>

record TradeRecord =
  rec_trade_id :: string
  rec_timestamp :: string
  rec_chain_id :: int
  rec_token :: string
  rec_amount :: string
  rec_expected_profit :: Decimal
  rec_actual_profit :: Decimal
  rec_gas_cost :: Decimal
  rec_net_profit :: Decimal
  rec_status :: string
  rec_capital_after :: Decimal

text \<open>
  The Redis server, as far as the executors use it: the (finite) set \<open>pending_txs\<close>, the messages
  published on the channel \<open>trade_signals\<close> (oldest first), the lists \<open>live_trades\<close> and
  \<open>paper_trades\<close> (newest first) and the key \<open>paper_capital\<close>.
\<close>

record Redis =
  pending_txs :: "string set"
  trade_signals :: "TradeSignal list"
  live_trades :: "ExecutionReport list"
  paper_trades :: "TradeRecord list"
  paper_capital :: "Decimal option"

text \<open>
  Any Redis command can raise (the connection is lost, the message is not
  serialisable). Which commands raise during a call is part of its environment.
\<close>

record RedisFaults =
  scard_raises :: bool
  sadd_raises :: bool
  publish_raises :: bool
  srem_raises :: bool
  lpush_raises :: bool
  set_raises :: bool

text \<open>\<open>str(n)\<close> for an integer: the decimal digits, with a sign when negative.\<close>

fun str_nat :: "nat \<Rightarrow> string" where
  "str_nat n =
     (if n < 10 then [char_of (48 + n)] else str_nat (n div 10) @ [char_of (48 + n mod 10)])"

declare str_nat.simps [simp del]

definition str_int :: "int \<Rightarrow> string" where
  "str_int i = (if i < 0 then CHR ''-'' # str_nat (nat (- i)) else str_nat (nat i))"

subsection \<open>Live executor\<close>

text \<open>
  \<open>redis_enabled\<close> is set by the constructor, and \<open>redis_client\<close> is an object exactly when
  it is true. The three limits are read from the environment by the constructor.
\<close>

record LiveMainnetExecutor =
  total_trades :: int
  successful_trades :: int
  total_volume_usd :: Decimal
  total_profit :: Decimal
  trade_history :: "ExecutionReport list"
  redis_enabled :: bool
  min_profit_usd :: Decimal
  max_slippage_bps :: int
  max_concurrent_txs :: int

text \<open>\<open>not os.getenv(k) or os.getenv(k) == placeholder\<close>.\<close>

definition not_configured :: "environ \<Rightarrow> string \<Rightarrow> string \<Rightarrow> bool" where
  "not_configured getenv k placeholder =
     (case getenv k of None \<Rightarrow> True | Some v \<Rightarrow> v = [] \<or> v = placeholder)"

definition pre_execution_checks ::
  "environ \<Rightarrow> RedisFaults \<Rightarrow> LiveMainnetExecutor \<Rightarrow> Redis \<Rightarrow> TradeSignal \<Rightarrow> bool \<times> reason" where
  "pre_execution_checks getenv faults self redis trade_signal =
     (let profit = (case expected_profit trade_signal of None \<Rightarrow> Dec 0 0 | Some p \<Rightarrow> p) in
      if dec_less profit (min_profit_usd self)
      then (False, ProfitBelowMinimum profit (min_profit_usd self))
      else
        let slippage_bps =
              (case estimated_slippage_bps trade_signal of None \<Rightarrow> 0 | Some s \<Rightarrow> s) in
        if slippage_bps > max_slippage_bps self
        then (False, SlippageExceedsMax slippage_bps (max_slippage_bps self))
        else if redis_enabled self \<and> \<not> scard_raises faults \<and>
                int (card (pending_txs redis)) \<ge> max_concurrent_txs self
        then (False, MaxConcurrentTxs (max_concurrent_txs self))
        else
          let missing = filter (\<lambda>f. \<not> has_key trade_signal f) required_fields in
          if missing \<noteq> [] then (False, MissingRequiredFields missing)
          else if not_configured getenv ''PRIVATE_KEY'' ''0xYOUR_REAL_PRIVATE_KEY_HERE''
          then (False, PrivateKeyNotConfigured)
          else if not_configured getenv ''EXECUTOR_ADDRESS''
                    ''0xYOUR_DEPLOYED_CONTRACT_ADDRESS_HERE''
          then (False, ExecutorAddressNotConfigured)
          else (True, AllChecksPassed))"

definition failed_result :: "string \<Rightarrow> reason \<Rightarrow> TradeResult" where
  "failed_result tid r =
     \<lparr>result_trade_id = tid, status = FAILED, error = Some r, is_paper = False,
      result_timestamp = None, result_expected_profit = None, result_net_profit = None,
      capital = None, tx_hash = None\<rparr>"

text \<open>
  \<open>LiveMainnetExecutor.execute_trade\<close>; \<open>now\<close> is \<open>datetime.now().isoformat()\<close>. The
  counter is incremented and the trade id is built, which reads \<open>trade_signal['chainId']\<close>,
  before the checks run. The executor and the Redis server are returned as the call
  leaves them, also when it raises. The three keys that the code adds to the caller's
  dictionary before publishing are kept in the published message.
\<close>

definition live_execute_trade ::
  "environ \<Rightarrow> RedisFaults \<Rightarrow> string \<Rightarrow> LiveMainnetExecutor \<Rightarrow> Redis \<Rightarrow> TradeSignal \<Rightarrow>
     (py_error + TradeResult) \<times> LiveMainnetExecutor \<times> Redis" where
  "live_execute_trade getenv faults now self redis trade_signal =
     (let self = self\<lparr>total_trades := total_trades self + 1\<rparr> in
      case chainId trade_signal of
        None \<Rightarrow> (Inl (KeyError ''chainId''), self, redis)
      | Some cid \<Rightarrow>
          let tid = ''LIVE_'' @ str_int cid @ ''_'' @ str_int (total_trades self);
              (is_valid, why) = pre_execution_checks getenv faults self redis trade_signal
          in
          if \<not> is_valid then (Inr (failed_result tid why), self, redis)
          else if \<not> redis_enabled self then (Inr (failed_result tid RedisNotAvailable), self, redis)
          else if sadd_raises faults then (Inr (failed_result tid RedisPublishFailed), self, redis)
          else
            let redis = redis\<lparr>pending_txs := insert tid (pending_txs redis)\<rparr>;
                trade_signal = trade_signal\<lparr>trade_id := Some tid, timestamp := Some now,
                                 mode := Some ''LIVE''\<rparr>
            in
            if publish_raises faults then (Inr (failed_result tid RedisPublishFailed), self, redis)
            else
              (Inr \<lparr>result_trade_id = tid, status = SUBMITTED, error = None, is_paper = False,
                    result_timestamp = timestamp trade_signal,
                    result_expected_profit =
                      Some (case expected_profit trade_signal of None \<Rightarrow> Dec 0 0 | Some p \<Rightarrow> p),
                    result_net_profit = None, capital = None, tx_hash = None\<rparr>,
               self,
               redis\<lparr>trade_signals := trade_signals redis @ [trade_signal]\<rparr>))"

text \<open>
  \<open>LiveMainnetExecutor.record_execution_result\<close>. The counters are updated by
  statements in sequence, so an overflow of the sum leaves \<open>successful_trades\<close>
  incremented; the first component of the result is the exception, if any.
\<close>

definition record_execution_result ::
  "RedisFaults \<Rightarrow> LiveMainnetExecutor \<Rightarrow> Redis \<Rightarrow> string \<Rightarrow> ExecutionReport \<Rightarrow>
     py_error option \<times> LiveMainnetExecutor \<times> Redis" where
  "record_execution_result faults self redis tid result =
     (let redis =
            (if redis_enabled self \<and> \<not> srem_raises faults
             then redis\<lparr>pending_txs := pending_txs redis - {tid}\<rparr> else redis);
          store =
            (\<lambda>self. (None, self\<lparr>trade_history := trade_history self @ [result]\<rparr>,
               if redis_enabled self \<and> \<not> lpush_raises faults
               then redis\<lparr>live_trades := result # live_trades redis\<rparr> else redis))
      in
      if report_status result = Some ''SUCCESS'' then
        let self = self\<lparr>successful_trades := successful_trades self + 1\<rparr>;
            profit = (case actual_profit result of None \<Rightarrow> Dec 0 0 | Some p \<Rightarrow> p)
        in (case dec_add (total_profit self) profit of
              Inl e \<Rightarrow> (Some e, self, redis)
            | Inr new_total \<Rightarrow> store (self\<lparr>total_profit := new_total\<rparr>))
      else store self)"

text \<open>\<open>LiveMainnetExecutor()\<close> with the default limits and Redis reachable.\<close>

definition new_live_executor :: LiveMainnetExecutor where
  "new_live_executor =
     \<lparr>total_trades = 0, successful_trades = 0, total_volume_usd = Dec 0 0,
      total_profit = Dec 0 0, trade_history = [], redis_enabled = True,
      min_profit_usd = Dec 50 (- 1), max_slippage_bps = 50, max_concurrent_txs = 3\<rparr>"

definition empty_redis :: Redis where
  "empty_redis =
     \<lparr>pending_txs = {}, trade_signals = [], live_trades = [], paper_trades = [],
      paper_capital = None\<rparr>"

definition no_faults :: RedisFaults where
  "no_faults =
     \<lparr>scard_raises = False, sadd_raises = False, publish_raises = False,
      srem_raises = False, lpush_raises = False, set_raises = False\<rparr>"

subsection \<open>Paper simulator\<close>

record PaperTradingSimulator =
  initial_capital :: Decimal
  current_capital :: Decimal
  paper_total_trades :: int
  paper_successful_trades :: int
  paper_total_profit :: Decimal
  paper_trade_history :: "TradeRecord list"
  paper_redis_enabled :: bool

text \<open>
  \<open>PaperTradingSimulator.execute_trade\<close>. The log lines read \<open>chainId\<close>, \<open>token\<close> and
  \<open>amount\<close> with \<open>trade_signal[...]\<close>, which raises \<open>KeyError\<close> for a missing key; the
  default gas cost is \<open>Decimal(str(5.0))\<close>. Errors of the two Redis commands are
  swallowed; the second command is skipped when the first raises.
\<close>

definition paper_execute_trade ::
  "RedisFaults \<Rightarrow> string \<Rightarrow> PaperTradingSimulator \<Rightarrow> Redis \<Rightarrow> TradeSignal \<Rightarrow>
     (py_error + TradeResult) \<times> PaperTradingSimulator \<times> Redis" where
  "paper_execute_trade faults now self redis trade_signal =
     (let self = self\<lparr>paper_total_trades := paper_total_trades self + 1\<rparr> in
      case chainId trade_signal of
        None \<Rightarrow> (Inl (KeyError ''chainId''), self, redis)
      | Some cid \<Rightarrow>
      let tid = ''PAPER_'' @ str_int cid @ ''_'' @ str_int (paper_total_trades self) in
      case token trade_signal of
        None \<Rightarrow> (Inl (KeyError ''token''), self, redis)
      | Some tok \<Rightarrow>
      case amount trade_signal of
        None \<Rightarrow> (Inl (KeyError ''amount''), self, redis)
      | Some amt \<Rightarrow>
      let slippage_factor = Dec 998 (- 3);
          expected = (case expected_profit trade_signal of None \<Rightarrow> Dec 0 0 | Some p \<Rightarrow> p)
      in
      case dec_mul expected slippage_factor of
        Inl e \<Rightarrow> (Inl e, self, redis)
      | Inr actual \<Rightarrow>
      let gas = (case gas_cost trade_signal of None \<Rightarrow> Dec 50 (- 1) | Some g \<Rightarrow> g) in
      case dec_sub actual gas of
        Inl e \<Rightarrow> (Inl e, self, redis)
      | Inr net \<Rightarrow>
      case dec_add (current_capital self) net of
        Inl e \<Rightarrow> (Inl e, self, redis)
      | Inr cap \<Rightarrow>
      let self = self\<lparr>current_capital := cap\<rparr> in
      case dec_add (paper_total_profit self) net of
        Inl e \<Rightarrow> (Inl e, self, redis)
      | Inr new_total \<Rightarrow>
      let self = self\<lparr>paper_total_profit := new_total\<rparr>;
          won = dec_less (Dec 0 0) net;
          self = (if won
                  then self\<lparr>paper_successful_trades := paper_successful_trades self + 1\<rparr>
                  else self);
          trade_record =
            \<lparr>rec_trade_id = tid, rec_timestamp = now, rec_chain_id = cid, rec_token = tok,
             rec_amount = amt, rec_expected_profit = expected, rec_actual_profit = actual,
             rec_gas_cost = gas, rec_net_profit = net,
             rec_status = (if won then ''SUCCESS'' else ''LOSS''),
             rec_capital_after = current_capital self\<rparr>;
          self = self\<lparr>paper_trade_history := paper_trade_history self @ [trade_record]\<rparr>;
          redis =
            (if paper_redis_enabled self \<and> \<not> lpush_raises faults then
               let redis = redis\<lparr>paper_trades := trade_record # paper_trades redis\<rparr> in
               if set_raises faults then redis
               else redis\<lparr>paper_capital := Some (current_capital self)\<rparr>
             else redis)
      in (Inr \<lparr>result_trade_id = tid, status = SIMULATED, error = None, is_paper = True,
               result_timestamp = None, result_expected_profit = None,
               result_net_profit = Some net, capital = Some (current_capital self),
               tx_hash = Some (''SIMULATED_'' @ tid)\<rparr>,
          self, redis))"

text \<open>\<open>PaperTradingSimulator()\<close>: a capital of 100000.0, Redis reachable.\<close>

definition new_paper_simulator :: PaperTradingSimulator where
  "new_paper_simulator =
     \<lparr>initial_capital = Dec 1000000 (- 1), current_capital = Dec 1000000 (- 1),
      paper_total_trades = 0, paper_successful_trades = 0, paper_total_profit = Dec 0 0,
      paper_trade_history = [], paper_redis_enabled = True\<rparr>"

subsection \<open>Hybrid manager\<close>

record HybridExecutionManager =
  paper_simulator :: PaperTradingSimulator
  live_executor :: LiveMainnetExecutor
  confidence_threshold :: rat

text \<open>\<open>HybridExecutionManager.execute_trade\<close>: the route depends on the confidence only.\<close>

definition hybrid_execute_trade ::
  "environ \<Rightarrow> RedisFaults \<Rightarrow> string \<Rightarrow> HybridExecutionManager \<Rightarrow> Redis \<Rightarrow> TradeSignal \<Rightarrow>
     (py_error + TradeResult) \<times> HybridExecutionManager \<times> Redis" where
  "hybrid_execute_trade getenv faults now self redis trade_signal =
     (let confidence = (case confidence_score trade_signal of None \<Rightarrow> 0 | Some c \<Rightarrow> c) in
      if confidence \<ge> confidence_threshold self then
        (case live_execute_trade getenv faults now (live_executor self) redis trade_signal of
           (result, live, redis) \<Rightarrow> (result, self\<lparr>live_executor := live\<rparr>, redis))
      else
        (case paper_execute_trade faults now (paper_simulator self) redis trade_signal of
           (result, paper, redis) \<Rightarrow> (result, self\<lparr>paper_simulator := paper\<rparr>, redis)))"

text \<open>\<open>HybridExecutionManager(confidence_threshold=t)\<close>; the default is 0.85.\<close>

definition new_hybrid_manager :: "rat \<Rightarrow> HybridExecutionManager" where
  "new_hybrid_manager t =
     \<lparr>paper_simulator = new_paper_simulator, live_executor = new_live_executor,
      confidence_threshold = t\<rparr>"

text \<open>A complete signal, as the scan loop builds it.\<close>

definition example_signal :: TradeSignal where
  "example_signal =
     \<lparr>chainId = Some 137, token = Some ''0x2791Bca1f2de4661ED88A30C99A7a9449Aa84174'',
      amount = Some ''1000000000'', protocols = Some [1, 2],
      routers = Some [''0xE592427A0AEce92De3Edee1F18E0157C05861564'',
                      ''0x445FE580eF8d70FF569aB36e80c647af338db351''],
      path = Some [''0x7ceB23fD6bC0adD59E62ac25578270cFf1b9f619'',
                   ''0x2791Bca1f2de4661ED88A30C99A7a9449Aa84174''],
      expected_profit = Some (Dec 1250 (- 2)), estimated_slippage_bps = Some 20,
      gas_cost = Some (Dec 200 (- 2)), confidence_score = Some (9 / 10),
      trade_id = None, timestamp = None, mode = None\<rparr>"

text \<open>An environment with the signing key and the executor address configured.\<close>

definition configured_env :: environ where
  "configured_env =
     [''PRIVATE_KEY'' \<mapsto> ''0x4c0883a69102937d6231471b5dbb6204fe5129617082792ae468d01a3f362318'',
      ''EXECUTOR_ADDRESS'' \<mapsto> ''0x1111111254EEB25477B68fb85Ed929f73A960582'']"

text \<open>
  One delivery of \<open>(trade_id, result)\<close> to \<open>record_execution_result\<close>, as a step on the
  executor and the Redis server.
\<close>

definition deliver ::
  "RedisFaults \<Rightarrow> string \<Rightarrow> ExecutionReport \<Rightarrow> LiveMainnetExecutor \<times> Redis \<Rightarrow>
     LiveMainnetExecutor \<times> Redis" where
  "deliver faults tid result s = snd (record_execution_result faults (fst s) (snd s) tid result)"

text \<open>The report of a confirmed trade that made a profit of 10.\<close>

definition success_report :: ExecutionReport where
  "success_report =
     \<lparr>report_status = Some ''SUCCESS'', actual_profit = Some (Dec 10 0), report_error = None\<rparr>"

section \<open>Opportunity graph (ml/brain.py)\<close>

text \<open>\<open>TokenDiscovery.BRIDGE_ASSETS\<close> (core/token\_discovery.py).\<close>

definition BRIDGE_ASSETS :: "string list" where
  "BRIDGE_ASSETS =
     [''USDC'', ''USDT'', ''DAI'', ''WETH'', ''WBTC'',
      ''USDC.e'', ''LINK'', ''UNI'', ''AAVE'', ''CRV'']"

text \<open>
  The inventory is a dictionary from chain id to a dictionary from symbol to token data;
  both are kept as association lists in insertion order, which is the order of
  iteration. A Python dictionary has no two entries with the same key.
\<close>

record TokenData =
  address :: string
  decimals :: nat

type_synonym Inventory = "(int \<times> (string \<times> TokenData) list) list"

record Node =
  chain :: int
  symbol :: string
  node_address :: string
  node_decimals :: nat

record EdgeData =
  edge_type :: string
  weight :: rat

text \<open>
  The \<open>rustworkx.PyDiGraph\<close>: node payloads by index and the edges in the order they were
  added. In a graph from which nothing was removed, \<open>add_node\<close> returns the number of
  nodes before the call; \<open>add_edge\<close> raises when an endpoint is not a node.
\<close>

record Graph =
  nodes :: "Node list"
  edges :: "(nat \<times> nat \<times> EdgeData) list"

record OmniBrain =
  graph :: Graph
  inventory :: Inventory
  node_indices :: "int \<times> string \<rightharpoonup> nat"

definition add_node :: "Graph \<Rightarrow> Node \<Rightarrow> Graph \<times> nat" where
  "add_node g n = (g\<lparr>nodes := nodes g @ [n]\<rparr>, length (nodes g))"

definition add_edge :: "Graph \<Rightarrow> nat \<Rightarrow> nat \<Rightarrow> EdgeData \<Rightarrow> py_error + Graph" where
  "add_edge g u v d =
     (if u < length (nodes g) \<and> v < length (nodes g)
      then Inr (g\<lparr>edges := edges g @ [(u, v, d)]\<rparr>) else Inl IndexError)"

text \<open>The body of the inner loop of \<open>_build_graph_nodes\<close>, for one \<open>(symbol, data)\<close>.\<close>

definition add_token_node :: "int \<Rightarrow> string \<times> TokenData \<Rightarrow> OmniBrain \<Rightarrow> OmniBrain" where
  "add_token_node cid item self =
     (let asset = fst item; data = snd item; node_key = (cid, asset) in
      if node_indices self node_key = None then
        let (g, idx) = add_node (graph self)
              \<lparr>chain = cid, symbol = asset, node_address = address data,
               node_decimals = decimals data\<rparr>
        in self\<lparr>graph := g, node_indices := (node_indices self)(node_key \<mapsto> idx)\<rparr>
      else self)"

definition build_graph_nodes :: "OmniBrain \<Rightarrow> OmniBrain" where
  "build_graph_nodes self =
     fold (\<lambda>entry self. fold (add_token_node (fst entry)) (snd entry) self) (inventory self) self"

text \<open>A \<open>for\<close> loop whose body can raise: the first exception ends the loop.\<close>

fun for_each :: "('a \<Rightarrow> 's \<Rightarrow> 'e + 's) \<Rightarrow> 'a list \<Rightarrow> 's \<Rightarrow> 'e + 's" where
  "for_each f [] s = Inr s"
| "for_each f (x # xs) s = and_then (f x s) (for_each f xs)"

text \<open>
  The pairs \<open>(xs[i], xs[j])\<close> for \<open>i\<close> in \<open>range(len(xs))\<close> and \<open>j\<close> in
  \<open>range(i + 1, len(xs))\<close>, in the order of the two nested loops.
\<close>

fun pairs :: "'a list \<Rightarrow> ('a \<times> 'a) list" where
  "pairs [] = []"
| "pairs (x # xs) = map (Pair x) xs @ pairs xs"

text \<open>\<open>[cid for cid in self.inventory if symbol in self.inventory[cid]]\<close>.\<close>

definition chains_with_asset :: "Inventory \<Rightarrow> string \<Rightarrow> int list" where
  "chains_with_asset stock asset =
     filter (\<lambda>cid. case map_of stock cid of None \<Rightarrow> False
                     | Some tokens \<Rightarrow> asset \<in> set (map fst tokens))
       (map fst stock)"

text \<open>The edge payload \<open>{"type": "bridge", "weight": 0.0}\<close>.\<close>

definition bridge :: EdgeData where
  "bridge = \<lparr>edge_type = ''bridge'', weight = 0\<rparr>"

text \<open>\<open>self.node_indices[k]\<close>, which raises \<open>KeyError\<close> for a missing key.\<close>

definition lookup_node :: "(int \<times> string \<rightharpoonup> nat) \<Rightarrow> int \<times> string \<Rightarrow> py_error + nat" where
  "lookup_node idx k = (case idx k of None \<Rightarrow> Inl (KeyError (snd k)) | Some i \<Rightarrow> Inr i)"

text \<open>The body of the innermost loop of \<open>_build_bridge_edges\<close>, for one pair of chains.\<close>

definition add_bridge ::
  "(int \<times> string \<rightharpoonup> nat) \<Rightarrow> string \<Rightarrow> int \<times> int \<Rightarrow> Graph \<Rightarrow> py_error + Graph" where
  "add_bridge idx asset ab g =
     and_then (lookup_node idx (fst ab, asset)) (\<lambda>u.
     and_then (lookup_node idx (snd ab, asset)) (\<lambda>v.
     and_then (add_edge g u v bridge) (\<lambda>g.
       add_edge g v u bridge)))"

definition build_bridge_edges :: "OmniBrain \<Rightarrow> py_error + OmniBrain" where
  "build_bridge_edges self =
     and_then
       (for_each
          (\<lambda>asset. for_each (add_bridge (node_indices self) asset)
                       (pairs (chains_with_asset (inventory self) asset)))
          BRIDGE_ASSETS (graph self))
       (\<lambda>g. Inr (self\<lparr>graph := g\<rparr>))"

text \<open>
  The graph-building step of \<open>OmniBrain.initialize\<close>: on a new brain that holds the
  inventory, \<open>_build_graph_nodes\<close> and then \<open>_build_bridge_edges\<close>.
\<close>

definition new_brain :: "Inventory \<Rightarrow> OmniBrain" where
  "new_brain stock =
     \<lparr>graph = \<lparr>nodes = [], edges = []\<rparr>, inventory = stock, node_indices = Map.empty\<rparr>"

definition build_graph :: "Inventory \<Rightarrow> py_error + OmniBrain" where
  "build_graph stock = build_bridge_edges (build_graph_nodes (new_brain stock))"

text \<open>
  The directed bridge edges of a graph for a symbol: the edges of type \<open>bridge\<close> between
  two nodes of that symbol.
\<close>

definition bridge_edges_of :: "Graph \<Rightarrow> string \<Rightarrow> (nat \<times> nat \<times> EdgeData) list" where
  "bridge_edges_of g s =
     filter (\<lambda>e. symbol (nodes g ! fst e) = s \<and> symbol (nodes g ! fst (snd e)) = s \<and>
                 edge_type (snd (snd e)) = ''bridge'') (edges g)"

text \<open>The number of chains of the inventory whose token dictionary has the symbol.\<close>

definition chains_carrying :: "Inventory \<Rightarrow> string \<Rightarrow> nat" where
  "chains_carrying stock s = length (filter (\<lambda>entry. s \<in> fst ` set (snd entry)) stock)"

text \<open>The chains of the inventory whose token dictionary has the symbol.\<close>

definition carriers :: "Inventory \<Rightarrow> string \<Rightarrow> int set" where
  "carriers stock s = set (map fst (filter (\<lambda>entry. s \<in> fst ` set (snd entry)) stock))"

text \<open>The chains that a directed edge joins: the chain of its source and of its target.\<close>

definition edge_chains :: "Graph \<Rightarrow> nat \<times> nat \<times> EdgeData \<Rightarrow> int \<times> int" where
  "edge_chains g e = (chain (nodes g ! fst e), chain (nodes g ! fst (snd e)))"

text \<open>
  The two edges that the innermost loop adds for a pair of chains whose nodes are in the
  index (none when a node is missing, where the loop raises).
\<close>

definition bridge_pair ::
  "(int \<times> string \<rightharpoonup> nat) \<Rightarrow> string \<Rightarrow> int \<times> int \<Rightarrow> (nat \<times> nat \<times> EdgeData) list" where
  "bridge_pair idx s ab =
     (case idx (fst ab, s) of
        None \<Rightarrow> []
      | Some u \<Rightarrow> (case idx (snd ab, s) of
                    None \<Rightarrow> []
                  | Some v \<Rightarrow> [(u, v, bridge), (v, u, bridge)]))"

text \<open>
  Two invariants of the construction. Every index in \<open>node_indices\<close> is a node of the
  graph with the chain and the symbol of its key; and a chain is placed for a symbol
  when its node is in the index.
\<close>

definition well_indexed :: "OmniBrain \<Rightarrow> bool" where
  "well_indexed self =
     (\<forall>c s i. node_indices self (c, s) = Some i \<longrightarrow>
        i < length (nodes (graph self)) \<and> symbol (nodes (graph self) ! i) = s \<and>
        chain (nodes (graph self) ! i) = c)"

definition placed :: "(int \<times> string \<rightharpoonup> nat) \<Rightarrow> Graph \<Rightarrow> string \<Rightarrow> int \<Rightarrow> bool" where
  "placed idx g s c =
     (\<exists>i. idx (c, s) = Some i \<and> i < length (nodes g) \<and> symbol (nodes g ! i) = s \<and>
          chain (nodes g ! i) = c)"

text \<open>An inventory of three chains; USDC is on all three, WETH on two, DAI on one.\<close>

definition token_entry :: "string \<Rightarrow> string \<times> TokenData" where
  "token_entry s = (s, \<lparr>address = ''0x'' @ s, decimals = 6\<rparr>)"

definition three_chains :: Inventory where
  "three_chains =
     [(137, [token_entry ''USDC'', token_entry ''WETH'']),
      (1, [token_entry ''USDC'', token_entry ''DAI'']),
      (42161, [token_entry ''USDC'', token_entry ''WETH''])]"

section \<open>Properties of the chain registry\<close>

text \<open>
  C2. \<open>is_execution_enabled\<close> answers true exactly for the chains whose entry in
  \<open>CHAIN_STATES\<close> is \<open>ENABLED\<close>, and chain 137 is the only such chain: every other chain
  identifier gets false. The answer is a function of the chain identifier alone (the
  health record of a registry instance is not an argument), so a healthy RPC endpoint
  cannot enable a chain.
\<close>

theorem is_execution_enabled_whitelist:
  "is_execution_enabled cid = (CHAIN_STATES cid = Some ENABLED) \<and>
   is_execution_enabled cid = (cid = 137)"
  by (simp add: is_execution_enabled_def CHAIN_STATES_def)

lemma startswith_iff: "startswith s p = (\<exists>ss. s = p @ ss)"
  unfolding startswith_def
  by (metis append_eq_conv_conj append_take_drop_id)

text \<open>\<open>contains\<close> is the substring test: \<open>sub\<close> occurs in \<open>s\<close> between some prefix and suffix.\<close>

lemma contains_iff: "contains sub s = (\<exists>ps ss. s = ps @ sub @ ss)"
proof (induction s)
  case Nil
  show ?case by auto
next
  case (Cons c cs)
  show ?case
  proof
    assume "contains sub (c # cs)"
    then consider "startswith (c # cs) sub" | "contains sub cs" by auto
    then show "\<exists>ps ss. c # cs = ps @ sub @ ss"
    proof cases
      case 1
      then obtain ss where "c # cs = sub @ ss" by (auto simp: startswith_iff)
      then have "c # cs = [] @ sub @ ss" by simp
      then show ?thesis by blast
    next
      case 2
      with Cons.IH obtain ps ss where "cs = ps @ sub @ ss" by auto
      then have "c # cs = (c # ps) @ sub @ ss" by simp
      then show ?thesis by blast
    qed
  next
    assume "\<exists>ps ss. c # cs = ps @ sub @ ss"
    then obtain ps ss where eq: "c # cs = ps @ sub @ ss" by auto
    show "contains sub (c # cs)"
    proof (cases ps)
      case Nil
      with eq have "startswith (c # cs) sub" by (auto simp: startswith_iff)
      then show ?thesis by simp
    next
      case (Cons p ps')
      with eq have "cs = ps' @ sub @ ss" by simp
      with Cons.IH have "contains sub cs" by auto
      then show ?thesis by simp
    qed
  qed
qed

lemma contains_sublist: "contains sub s = sublist sub s"
  by (simp add: contains_iff sublist_def)

lemma contains_lower: "contains sub s \<Longrightarrow> contains (lower sub) (lower s)"
  unfolding contains_iff lower_def by (metis map_append)

lemma lower_localhost: "lower ''localhost'' = ''localhost''"
  by (simp add: lower_def lower_char_def)

text \<open>
  For a chain of \<open>CHAIN_METADATA\<close> whose RPC environment variable holds a non-empty
  string, \<open>get_rpc_url\<close> returns \<open>None\<close> whenever the URL contains \<open>localhost\<close> or
  \<open>127.0.0.1\<close>, or starts with neither \<open>http://\<close> nor \<open>https://\<close>. There is no fallback:
  the result is \<open>None\<close> or the configured URL itself.
\<close>

lemma get_rpc_url_rejects_nonempty:
  assumes "CHAIN_METADATA cid = Some metadata"
    and "getenv (rpc_env metadata) = Some rpc_url"
    and "rpc_url \<noteq> []"
  shows "(contains ''localhost'' rpc_url \<or> contains ''127.0.0.1'' rpc_url \<or>
          \<not> (startswith rpc_url ''http://'' \<or> startswith rpc_url ''https://'')
          \<longrightarrow> get_rpc_url getenv cid = None) \<and>
         (get_rpc_url getenv cid = None \<or> get_rpc_url getenv cid = Some rpc_url)"
proof -
  have "contains ''localhost'' (lower rpc_url)" if "contains ''localhost'' rpc_url"
    using contains_lower [OF that] by (simp only: lower_localhost)
  with assms show ?thesis
    by (auto simp add: get_rpc_url_def)
qed

lemma get_rpc_url_rejects_localhost:
  "CHAIN_METADATA 137 =
     Some \<lparr>name = ''polygon'', native = ''MATIC'', rpc_env = ''RPC_POLYGON'',
           wss_env = ''WSS_POLYGON'', chain_id = 137\<rparr> \<and>
   [''RPC_POLYGON'' \<mapsto> ''http://localhost:8545''] ''RPC_POLYGON'' = Some ''http://localhost:8545'' \<and>
   contains ''localhost'' ''http://localhost:8545'' \<and>
   get_rpc_url [''RPC_POLYGON'' \<mapsto> ''http://localhost:8545''] 137 = None"
  using get_rpc_url_rejects_nonempty [of 137
      "\<lparr>name = ''polygon'', native = ''MATIC'', rpc_env = ''RPC_POLYGON'',
        wss_env = ''WSS_POLYGON'', chain_id = 137\<rparr>"
      "[''RPC_POLYGON'' \<mapsto> ''http://localhost:8545'']" "''http://localhost:8545''"]
  by (simp add: CHAIN_METADATA_def startswith_def)

text \<open>The other outcomes of \<open>get_rpc_url\<close>, on concrete environments.\<close>

lemma get_rpc_url_examples:
  "get_rpc_url [''RPC_POLYGON'' \<mapsto> ''https://polygon-rpc.com''] 137 = Some ''https://polygon-rpc.com''"
  "get_rpc_url [''RPC_POLYGON'' \<mapsto> ''http://127.0.0.1:8545''] 137 = None"
  "get_rpc_url [''RPC_POLYGON'' \<mapsto> ''wss://polygon-rpc.com''] 137 = None"
  "get_rpc_url Map.empty 137 = None"
  "get_rpc_url [''RPC_POLYGON'' \<mapsto> ''https://polygon-rpc.com''] 56 = None"
  by (simp_all add: get_rpc_url_def CHAIN_METADATA_def startswith_def lower_def lower_char_def)

text \<open>The test for \<open>localhost\<close> ignores the case of the letters.\<close>

lemma get_rpc_url_mixed_case:
  "get_rpc_url [''RPC_POLYGON'' \<mapsto> ''http://LocalHost:8545''] 137 = None"
  by code_simp

text \<open>
  C7. The claim says that a configured URL without an \<open>http://\<close> or \<open>https://\<close> scheme
  gives \<open>None\<close>, and the docstring of \<open>get_rpc_url\<close> promises \<open>None\<close> when no URL is
  configured. For the chain 137 with \<open>RPC_POLYGON\<close> set to the empty string, which has
  no scheme, the guard \<open>if rpc_url:\<close> skips both tests and the function returns the
  empty string, not \<open>None\<close>. (The empty string is the only value without a scheme that
  is returned: lemma \<open>get_rpc_url_rejects_nonempty\<close>.)
\<close>

theorem get_rpc_url_empty_value:
  "[''RPC_POLYGON'' \<mapsto> ''''] ''RPC_POLYGON'' = Some '''' \<and>
   startswith '''' ''http://'' = False \<and> startswith '''' ''https://'' = False \<and>
   get_rpc_url [''RPC_POLYGON'' \<mapsto> ''''] 137 = Some '''' \<and>
   get_rpc_url [''RPC_POLYGON'' \<mapsto> ''''] 137 \<noteq> None"
  by (simp add: get_rpc_url_def CHAIN_METADATA_def startswith_def)

section \<open>Properties of the loan-sizing guard\<close>

text \<open>The aborts of \<open>optimize_loan_size\<close>: a failed or empty liquidity query gives 0.\<close>

lemma optimize_loan_size_no_liquidity:
  "optimize_loan_size None target decs = Inr 0"
  "optimize_loan_size (Some 0) target decs = Inr 0"
  by (simp_all add: optimize_loan_size_def)

text \<open>The result is 0 or at least the minimum floor, and never above the request.\<close>

lemma optimize_loan_size_floor:
  "optimize_loan_size tvl target decs = Inr r \<Longrightarrow>
   r = 0 \<or> (500 * 10 ^ decs \<le> r \<and> r \<le> target)"
  by (auto simp add: optimize_loan_size_def Let_def split: option.splits sum.splits if_splits)

text \<open>The result never exceeds the cap that the code computes from the liquidity.\<close>

lemma optimize_loan_size_le_max_cap:
  "optimize_loan_size (Some pool_liquidity) target decs = Inr r \<Longrightarrow>
   int_mul_share pool_liquidity = Inr max_cap \<Longrightarrow> r \<le> max_cap"
  by (auto simp add: optimize_loan_size_def int_mul_share_def Let_def
      split: option.splits sum.splits if_splits)

text \<open>
  The scenario of the specification: liquidity 1,000,000, request 500,000, 6 decimals.
  The cap is 200,000, below the floor of 500,000,000, so the guard aborts.
\<close>

lemma optimize_loan_size_scenario:
  "int_mul_share 1000000 = Inr 200000"
  "optimize_loan_size (Some 1000000) 500000 6 = Inr 0"
  by (simp_all add: optimize_loan_size_def int_mul_share_def float_of_int_def round53_def
      round_half_even_def MAX_TVL_SHARE_numerator_def bit_length.simps Let_def)

text \<open>
  C1. The claim bounds the result by \<open>floor(L * 0.20)\<close>. The code computes the cap in
  binary floating point, and for a vault balance of 12,345 tokens of 18 decimals
  (\<open>L = 12345 * 10 ^ 18\<close>), the request of 10,000 tokens that the scan loop makes and
  \<open>decimals = 18\<close>, it returns 2469000000000000262144: that is 262144 units more than
  \<open>floor(L / 5) = 2469000000000000000000\<close>, and also more than the floor of \<open>L\<close> times the
  binary64 value of \<open>0.20\<close>.
\<close>

theorem optimize_loan_size_exceeds_share:
  "optimize_loan_size (Some 12345000000000000000000) 10000000000000000000000 18
     = Inr 2469000000000000262144 \<and>
   (2469000000000000262144 :: int) > 12345000000000000000000 div 5 \<and>
   (2469000000000000262144 :: int) >
     (12345000000000000000000 * int MAX_TVL_SHARE_numerator) div 2 ^ 54"
  by (simp add: optimize_loan_size_def int_mul_share_def float_of_int_def round53_def
      round_half_even_def MAX_TVL_SHARE_numerator_def bit_length.simps Let_def)

section \<open>Properties of the retrying submission\<close>

lemma find_upto_ge: "List.find P [a..b] = Some k \<Longrightarrow> a \<le> k"
  by (auto simp: find_Some_iff)

text \<open>
  The number of calls of \<open>execute_signal\<close> and of sleeps the loop makes from \<open>attempt = a\<close>
  on is fixed by the first attempt that succeeds.
\<close>

lemma retry_loop_effects:
  "calls (snd (snd (retry_loop client n a st fx))) =
     calls fx + (case List.find (\<lambda>k. succeeds (client k)) [a..n - 1] of
                   Some k \<Rightarrow> nat (k + 1 - a) | None \<Rightarrow> nat (n - a)) \<and>
   slept (snd (snd (retry_loop client n a st fx))) =
     slept fx + (case List.find (\<lambda>k. succeeds (client k)) [a..n - 1] of
                   Some k \<Rightarrow> nat (k - a) | None \<Rightarrow> nat (n - 1 - a))"
proof (induction client n a st fx rule: retry_loop.induct)
  case (1 client n attempt st fx)
  show ?case
  proof (cases "attempt < n")
    case False
    then show ?thesis by (simp add: retry_loop.simps)
  next
    case True
    then have upt: "[attempt..n - 1] = attempt # [attempt + 1..n - 1]"
      by (simp add: upto_rec1)
    show ?thesis
    proof (cases "client attempt")
      case (Returns result)
      show ?thesis
      proof (cases "truthy (dict_get result ''success'')")
        case ok: True
        with True Returns show ?thesis
          by (simp add: retry_loop.simps [of client n attempt] upt succeeds_def)
      next
        case no: False
        show ?thesis
        proof (cases "attempt < n - 1")
          case more: True
          from "1.IH"(1) [OF True Returns no more] True Returns no more show ?thesis
            by (auto simp add: retry_loop.simps [of client n attempt] upt succeeds_def
                split: option.splits dest: find_upto_ge)
        next
          case last: False
          with True have "[attempt + 1..n - 1] = []" by simp
          with True Returns no last show ?thesis
            by (simp add: retry_loop.simps [of client n attempt] upt succeeds_def)
        qed
      qed
    next
      case (Raises e)
      show ?thesis
      proof (cases "attempt < n - 1")
        case more: True
        from "1.IH"(2) [OF True Raises more] True Raises more show ?thesis
          by (auto simp add: retry_loop.simps [of client n attempt] upt succeeds_def
              split: option.splits dest: find_upto_ge)
      next
        case last: False
        with True have "[attempt + 1..n - 1] = []" by simp
        with True Raises last show ?thesis
          by (simp add: retry_loop.simps [of client n attempt] upt succeeds_def)
      qed
    qed
  qed
qed

text \<open>
  C4, as the claim states it, fails: the loop does not look at why an attempt did not
  succeed. With the default of 3 attempts, a submission that the server rejects in
  pre-flight validation every time calls \<open>execute_signal\<close> 3 times, not once.
\<close>

theorem submit_trade_retries_rejection:
  "calls (snd (snd (submit_trade (new_manager 3) (\<lambda>attempt. preflight_rejection)))) = 3 \<and>
   calls (snd (snd (submit_trade (new_manager 3) (\<lambda>attempt. preflight_rejection)))) \<noteq> 1"
  by (simp add: submit_trade_def new_manager_def retry_loop.simps preflight_rejection_def
      failure_dict_def dict_get_def)

text \<open>
  C4, amended. \<open>submit_trade\<close> retries after every attempt that does not succeed, be it
  an exception or a result without success, whatever the reason, until an attempt
  succeeds or \<open>max_retries\<close> attempts are made. It calls \<open>execute_signal\<close> \<open>k + 1\<close> times
  when attempt \<open>k\<close> (counted from 0) is the first to succeed and \<open>max_retries\<close> times when
  none succeeds, and it sleeps one second between two attempts.
\<close>

theorem submit_trade_attempts:
  "calls (snd (snd (submit_trade m client))) =
     (case List.find (\<lambda>k. succeeds (client k)) [0..max_retries m - 1] of
        Some k \<Rightarrow> nat (k + 1) | None \<Rightarrow> nat (max_retries m)) \<and>
   slept (snd (snd (submit_trade m client))) =
     (case List.find (\<lambda>k. succeeds (client k)) [0..max_retries m - 1] of
        Some k \<Rightarrow> nat k | None \<Rightarrow> nat (max_retries m - 1))"
  using retry_loop_effects [of client "max_retries m" 0
      "(stats m)\<lparr>sent := sent (stats m) + 1\<rparr>" "\<lparr>calls = 0, slept = 0\<rparr>"]
  by (auto simp add: submit_trade_def split: prod.splits option.splits)

text \<open>The counters after the loop, when it runs at least once.\<close>

lemma retry_loop_stats:
  "a < n \<Longrightarrow>
   sent (fst (snd (retry_loop client n a st fx))) = sent st \<and>
   succeeded (fst (snd (retry_loop client n a st fx))) +
     failed (fst (snd (retry_loop client n a st fx))) = succeeded st + failed st + 1 \<and>
   (succeeded (fst (snd (retry_loop client n a st fx))) = succeeded st \<or>
    failed (fst (snd (retry_loop client n a st fx))) = failed st)"
proof (induction client n a st fx rule: retry_loop.induct)
  case (1 client n attempt st fx)
  note lt = \<open>attempt < n\<close>
  show ?case
  proof (cases "client attempt")
    case (Returns result)
    show ?thesis
    proof (cases "truthy (dict_get result ''success'')")
      case True
      with lt Returns show ?thesis
        by (simp add: retry_loop.simps [of client n attempt])
    next
      case no: False
      show ?thesis
      proof (cases "attempt < n - 1")
        case more: True
        then have "attempt + 1 < n" by simp
        from "1.IH"(1) [OF lt Returns no more this] lt Returns no more show ?thesis
          by (simp add: retry_loop.simps [of client n attempt])
      next
        case False
        with lt Returns no show ?thesis
          by (simp add: retry_loop.simps [of client n attempt])
      qed
    qed
  next
    case (Raises e)
    show ?thesis
    proof (cases "attempt < n - 1")
      case more: True
      then have "attempt + 1 < n" by simp
      from "1.IH"(2) [OF lt Raises more this] lt Raises more show ?thesis
        by (simp add: retry_loop.simps [of client n attempt])
    next
      case False
      with lt Raises show ?thesis
        by (simp add: retry_loop.simps [of client n attempt])
    qed
  qed
qed

lemma submit_trade_max_retries: "max_retries (fst (snd (submit_trade m client))) = max_retries m"
  by (simp add: submit_trade_def split: prod.splits)

lemma submit_trade_step:
  assumes "1 \<le> max_retries m"
  shows "sent (stats (fst (snd (submit_trade m client)))) = sent (stats m) + 1 \<and>
     ((succeeded (stats (fst (snd (submit_trade m client)))) = succeeded (stats m) + 1 \<and>
       failed (stats (fst (snd (submit_trade m client)))) = failed (stats m)) \<or>
      (succeeded (stats (fst (snd (submit_trade m client)))) = succeeded (stats m) \<and>
       failed (stats (fst (snd (submit_trade m client)))) = failed (stats m) + 1))"
proof -
  from assms have "0 < max_retries m" by simp
  from retry_loop_stats [OF this, of client "(stats m)\<lparr>sent := sent (stats m) + 1\<rparr>"
      "\<lparr>calls = 0, slept = 0\<rparr>"]
  show ?thesis
    by (auto simp add: submit_trade_def split: prod.splits)
qed

lemma submit_trades_balance:
  "1 \<le> max_retries m \<Longrightarrow>
   sent (stats (submit_trades m clients)) -
     (succeeded (stats (submit_trades m clients)) + failed (stats (submit_trades m clients))) =
   sent (stats m) - (succeeded (stats m) + failed (stats m))"
proof (induction clients arbitrary: m)
  case Nil
  show ?case by simp
next
  case (Cons client clients)
  from Cons.prems have "1 \<le> max_retries (fst (snd (submit_trade m client)))"
    by (simp add: submit_trade_max_retries)
  from Cons.IH [OF this] submit_trade_step [OF Cons.prems, of client] show ?case
    by auto
qed

text \<open>
  C10. With \<open>max_retries\<close> at least 1, a completed call of \<open>submit_trade\<close> adds exactly 1
  to \<open>sent\<close> and exactly 1 to exactly one of \<open>succeeded\<close> and \<open>failed\<close>, whatever the client
  does (success at any attempt, failures, exceptions). Hence after any sequence of
  completed calls on a manager whose counters satisfy \<open>sent = succeeded + failed\<close> (a new
  manager does), the invariant holds again.
\<close>

theorem submit_trade_counter_invariant:
  assumes "1 \<le> max_retries m"
  shows "sent (stats (fst (snd (submit_trade m client)))) = sent (stats m) + 1 \<and>
     ((succeeded (stats (fst (snd (submit_trade m client)))) = succeeded (stats m) + 1 \<and>
       failed (stats (fst (snd (submit_trade m client)))) = failed (stats m)) \<or>
      (succeeded (stats (fst (snd (submit_trade m client)))) = succeeded (stats m) \<and>
       failed (stats (fst (snd (submit_trade m client)))) = failed (stats m) + 1)) \<and>
     (sent (stats m) = succeeded (stats m) + failed (stats m) \<longrightarrow>
      sent (stats (submit_trades m clients)) =
        succeeded (stats (submit_trades m clients)) + failed (stats (submit_trades m clients)))"
  using submit_trade_step [OF assms, of client] submit_trades_balance [OF assms, of clients]
  by auto

theorem submit_trade_counter_invariant_witness:
  "1 \<le> max_retries (new_manager 3) \<and>
   sent (stats (new_manager 3)) = succeeded (stats (new_manager 3)) + failed (stats (new_manager 3)) \<and>
   sent (stats (fst (snd (submit_trade (new_manager 3) (\<lambda>attempt. preflight_rejection))))) = 1 \<and>
   failed (stats (fst (snd (submit_trade (new_manager 3) (\<lambda>attempt. preflight_rejection))))) = 1 \<and>
   sent (stats (submit_trades (new_manager 3)
       [\<lambda>attempt. preflight_rejection, \<lambda>attempt. Raises ''timeout''])) =
     succeeded (stats (submit_trades (new_manager 3)
       [\<lambda>attempt. preflight_rejection, \<lambda>attempt. Raises ''timeout''])) +
     failed (stats (submit_trades (new_manager 3)
       [\<lambda>attempt. preflight_rejection, \<lambda>attempt. Raises ''timeout'']))"
  using submit_trade_counter_invariant [of "new_manager 3" "\<lambda>attempt. preflight_rejection"
      "[\<lambda>attempt. preflight_rejection, \<lambda>attempt. Raises ''timeout'']"]
  by (simp add: new_manager_def submit_trade_def retry_loop.simps preflight_rejection_def
      failure_dict_def dict_get_def)

section \<open>Properties of the decimal arithmetic and the profit engine\<close>

lemma pow10_shift: "0 \<le> k \<Longrightarrow> (10::rat) ^ nat k * 10 powi e = 10 powi (k + e)"
  by (simp add: power_int_def [of _ k] power_int_add)

lemma dval_exact_add: "dval (exact_add a b) = dval a + dval b"
proof -
  define e where "e = min (expo a) (expo b)"
  have a: "0 \<le> expo a - e" and b: "0 \<le> expo b - e" by (simp_all add: e_def)
  have "dval (exact_add a b) =
      of_int (coeff a) * ((10::rat) ^ nat (expo a - e) * 10 powi e) +
      of_int (coeff b) * ((10::rat) ^ nat (expo b - e) * 10 powi e)"
    by (simp add: dval_def exact_add_def Let_def e_def algebra_simps)
  also have "\<dots> = dval a + dval b"
    by (simp only: pow10_shift [OF a] pow10_shift [OF b] dval_def) simp
  finally show ?thesis .
qed

lemma dval_exact_mul: "dval (exact_mul a b) = dval a * dval b"
  by (simp add: dval_def exact_mul_def power_int_add)

lemma dval_neg: "dval (neg a) = - dval a"
  by (simp add: dval_def neg_def)

lemma pow10_pos: "0 < (10::rat) powi e"
  by (simp add: zero_less_power_int)

lemma dval_pos_iff: "0 < dval d \<longleftrightarrow> 0 < coeff d"
  using pow10_pos [of "expo d"]
  by (auto simp add: dval_def zero_less_mult_iff dest: order.asym)

lemma dval_neg_iff: "dval d < 0 \<longleftrightarrow> coeff d < 0"
  using pow10_pos [of "expo d"]
  by (auto simp add: dval_def mult_less_0_iff dest: order.asym)

text \<open>The comparison of two \<open>Decimal\<close>s is the comparison of the numbers they denote.\<close>

lemma dec_less_iff: "dec_less a b \<longleftrightarrow> dval a < dval b"
proof -
  have "dec_less a b \<longleftrightarrow> dval (exact_add a (neg b)) < 0"
    by (simp add: dec_less_def dval_neg_iff)
  then show ?thesis by (simp add: dval_exact_add dval_neg)
qed

text \<open>An exact result that fits the context is returned unrounded.\<close>

lemma dec_fix_fits: "fits d \<Longrightarrow> dec_fix d = Inr d"
  by (cases d) (auto simp add: fits_def dec_fix_def Let_def split: if_splits)

lemma dec_ops_fit:
  "fits (exact_add a b) \<Longrightarrow> dec_add a b = Inr (exact_add a b)"
  "fits (exact_add a (neg b)) \<Longrightarrow> dec_sub a b = Inr (exact_add a (neg b))"
  "fits (exact_mul a b) \<Longrightarrow> dec_mul a b = Inr (exact_mul a b)"
  by (simp_all add: dec_add_def dec_sub_def dec_mul_def dec_fix_fits)

lemmas decimal_context = prec_def Etop_def Etiny_def Emax_def Emin_def

text \<open>A number between \<open>10 ^ k\<close> and \<open>10 ^ (k + 1)\<close> has \<open>k + 1\<close> digits.\<close>

lemma ndigits_eq: "10 ^ k \<le> n \<Longrightarrow> n < 10 ^ Suc k \<Longrightarrow> ndigits n = Suc k"
proof (induction k arbitrary: n)
  case 0
  then have "n \<noteq> 0" "n div 10 = 0" by simp_all
  then show ?case by (simp add: ndigits.simps [of n] ndigits.simps [of 0])
next
  case (Suc k)
  from Suc.prems have "10 ^ k \<le> n div 10" "n div 10 < 10 ^ Suc k" "n \<noteq> 0"
    by (auto simp add: less_eq_div_iff_mult_less_eq div_less_iff_less_mult mult.commute)
  from Suc.IH [OF this(1,2)] this(3) show ?case
    by (simp add: ndigits.simps [of n])
qed

lemma ndigits_examples:
  "ndigits 10000000000000000000000000000 = 29"
  "ndigits 10000000000000000000000000001 = 29"
  "ndigits 100000000000000000000000000000 = 30"
  "ndigits 1000000000000000000000000000 = 28"
  using ndigits_eq [of 28 10000000000000000000000000000]
    ndigits_eq [of 28 10000000000000000000000000001]
    ndigits_eq [of 29 100000000000000000000000000000]
    ndigits_eq [of 27 1000000000000000000000000000]
  by simp_all

text \<open>The operations of the profit engine on the input of 29 digits, one at a time.\<close>

lemma rounding_steps:
  "dec_mul (Dec 0 0) (Dec 0 (- 1)) = Inr (Dec 0 (- 1))"
  "dec_add (Dec 1 28) (Dec 0 0) = Inr (Dec 1000000000000000000000000000 1)"
  "dec_add (Dec 1000000000000000000000000000 1) (Dec 0 (- 1)) =
     Inr (Dec 1000000000000000000000000000 1)"
  "dec_sub (Dec 10000000000000000000000000001 0) (Dec 0 0) =
     Inr (Dec 1000000000000000000000000000 1)"
  "dec_sub (Dec 1000000000000000000000000000 1) (Dec 1000000000000000000000000000 1) =
     Inr (Dec 0 1)"
  by (simp_all add: dec_mul_def dec_add_def dec_sub_def exact_mul_def exact_add_def neg_def
      dec_fix_def round_half_even_def Let_def ndigits_examples decimal_context)

text \<open>
  C6, as the claim states it, fails: every operation rounds its result to 28 significant
  digits. With loan 0, gross output 10000000000000000000000000001 (29 digits), bridge fee
  \<open>1E+28\<close>, gas fee 0 and fee rate 0.0, the gross spread is rounded to \<open>1E+28\<close>, so the
  function returns net profit 0 and \<open>is_profitable = False\<close>, while
  \<open>grossOutput - loan - (bridgeFee + gasFee + loan * rate)\<close> is 1, which is positive.
\<close>

theorem calculate_enhanced_profit_rounds:
  "calculate_enhanced_profit (Dec 0 (- 1)) (Dec 0 0) (Dec 10000000000000000000000000001 0)
       (Dec 1 28) (Dec 0 0) =
     Inr \<lparr>net_profit = Dec 0 1,
          gross_spread = Dec 1000000000000000000000000000 1,
          total_fees = Dec 1000000000000000000000000000 1,
          is_profitable = False\<rparr> \<and>
   dval (Dec 0 1) = 0 \<and>
   dval (Dec 10000000000000000000000000001 0) - dval (Dec 0 0) -
     (dval (Dec 1 28) + dval (Dec 0 0) + dval (Dec 0 0) * dval (Dec 0 (- 1))) = 1"
proof -
  have "calculate_enhanced_profit (Dec 0 (- 1)) (Dec 0 0) (Dec 10000000000000000000000000001 0)
       (Dec 1 28) (Dec 0 0) =
     Inr \<lparr>net_profit = Dec 0 1,
          gross_spread = Dec 1000000000000000000000000000 1,
          total_fees = Dec 1000000000000000000000000000 1,
          is_profitable = False\<rparr>"
    by (simp add: calculate_enhanced_profit_def and_then_def rounding_steps dec_less_def
        exact_add_def neg_def)
  moreover have "dval (Dec 0 1) = 0"
    by (simp add: dval_def)
  moreover have "dval (Dec 10000000000000000000000000001 0) - dval (Dec 0 0) -
     (dval (Dec 1 28) + dval (Dec 0 0) + dval (Dec 0 0) * dval (Dec 0 (- 1))) = 1"
    by (simp add: dval_def)
  ultimately show ?thesis by simp
qed

text \<open>
  C6, amended. When each of the five exact intermediate results (the flash-fee cost, the
  two sums of the fees, the gross spread and the net profit) fits the decimal context
  (at most 28 significant digits, exponent in range), the function returns, and the
  returned numbers are exactly
  \<open>total_fees = bridgeFee + gasFee + loan * flashFeeRate\<close>,
  \<open>gross_spread = grossOutput - loan\<close> and
  \<open>net_profit = grossOutput - loan - (bridgeFee + gasFee + loan * flashFeeRate)\<close>,
  and \<open>is_profitable\<close> is \<open>net_profit > 0\<close>, strictly. (The inputs need not be non-negative.)
\<close>

theorem calculate_enhanced_profit_exact:
  assumes "fits (exact_mul loan flash_fee)"
    and "fits (exact_add bridge_fee_usd gas_cost_usd)"
    and "fits (exact_add (exact_add bridge_fee_usd gas_cost_usd) (exact_mul loan flash_fee))"
    and "fits (exact_add gross (neg loan))"
    and "fits (exact_add (exact_add gross (neg loan))
           (neg (exact_add (exact_add bridge_fee_usd gas_cost_usd) (exact_mul loan flash_fee))))"
  shows "\<exists>r. calculate_enhanced_profit flash_fee loan gross bridge_fee_usd gas_cost_usd = Inr r \<and>
     dval (total_fees r) = dval bridge_fee_usd + dval gas_cost_usd + dval loan * dval flash_fee \<and>
     dval (gross_spread r) = dval gross - dval loan \<and>
     dval (net_profit r) =
       dval gross - dval loan -
         (dval bridge_fee_usd + dval gas_cost_usd + dval loan * dval flash_fee) \<and>
     is_profitable r = (0 < dval (net_profit r))"
proof -
  let ?fee = "exact_mul loan flash_fee"
  let ?tot = "exact_add (exact_add bridge_fee_usd gas_cost_usd) ?fee"
  let ?spread = "exact_add gross (neg loan)"
  let ?net = "exact_add ?spread (neg ?tot)"
  let ?r = "\<lparr>net_profit = ?net, gross_spread = ?spread, total_fees = ?tot,
             is_profitable = dec_less (Dec 0 0) ?net\<rparr>"
  have "calculate_enhanced_profit flash_fee loan gross bridge_fee_usd gas_cost_usd = Inr ?r"
    using assms by (simp add: calculate_enhanced_profit_def and_then_def dec_ops_fit)
  moreover have "dval (total_fees ?r) =
      dval bridge_fee_usd + dval gas_cost_usd + dval loan * dval flash_fee"
    by (simp add: dval_exact_add dval_exact_mul)
  moreover have "dval (gross_spread ?r) = dval gross - dval loan"
    by (simp add: dval_exact_add dval_neg)
  moreover have "dval (net_profit ?r) =
       dval gross - dval loan -
         (dval bridge_fee_usd + dval gas_cost_usd + dval loan * dval flash_fee)"
    by (simp add: dval_exact_add dval_exact_mul dval_neg)
  moreover have "is_profitable ?r = (0 < dval (net_profit ?r))"
    by (simp add: dec_less_iff) (simp add: dval_def)
  ultimately show ?thesis by blast
qed

text \<open>
  A loan of 10000 that returns 10002 with a gas fee of 2.00: every intermediate result
  fits, and the net profit is exactly 0, which is not profitable.
\<close>

theorem calculate_enhanced_profit_exact_witness:
  "fits (exact_mul (Dec 10000 0) (Dec 0 (- 1))) \<and>
   fits (exact_add (Dec 0 0) (Dec 200 (- 2))) \<and>
   fits (exact_add (exact_add (Dec 0 0) (Dec 200 (- 2))) (exact_mul (Dec 10000 0) (Dec 0 (- 1)))) \<and>
   fits (exact_add (Dec 10002 0) (neg (Dec 10000 0))) \<and>
   fits (exact_add (exact_add (Dec 10002 0) (neg (Dec 10000 0)))
     (neg (exact_add (exact_add (Dec 0 0) (Dec 200 (- 2)))
        (exact_mul (Dec 10000 0) (Dec 0 (- 1)))))) \<and>
   (\<exists>r. calculate_enhanced_profit (Dec 0 (- 1)) (Dec 10000 0) (Dec 10002 0) (Dec 0 0)
          (Dec 200 (- 2)) = Inr r \<and>
        dval (net_profit r) = 0 \<and> \<not> is_profitable r)"
proof -
  have f: "fits (exact_mul (Dec 10000 0) (Dec 0 (- 1)))"
    "fits (exact_add (Dec 0 0) (Dec 200 (- 2)))"
    "fits (exact_add (exact_add (Dec 0 0) (Dec 200 (- 2))) (exact_mul (Dec 10000 0) (Dec 0 (- 1))))"
    "fits (exact_add (Dec 10002 0) (neg (Dec 10000 0)))"
    "fits (exact_add (exact_add (Dec 10002 0) (neg (Dec 10000 0)))
       (neg (exact_add (exact_add (Dec 0 0) (Dec 200 (- 2)))
          (exact_mul (Dec 10000 0) (Dec 0 (- 1))))))"
    by (simp_all add: fits_def exact_add_def exact_mul_def neg_def ndigits.simps Let_def
        decimal_context)
  from calculate_enhanced_profit_exact [OF f] obtain r where
    "calculate_enhanced_profit (Dec 0 (- 1)) (Dec 10000 0) (Dec 10002 0) (Dec 0 0)
       (Dec 200 (- 2)) = Inr r"
    "dval (net_profit r) =
       dval (Dec 10002 0) - dval (Dec 10000 0) -
         (dval (Dec 0 0) + dval (Dec 200 (- 2)) + dval (Dec 10000 0) * dval (Dec 0 (- 1)))"
    "is_profitable r = (0 < dval (net_profit r))"
    by blast
  moreover have "dval (Dec 10002 0) - dval (Dec 10000 0) -
         (dval (Dec 0 0) + dval (Dec 200 (- 2)) + dval (Dec 10000 0) * dval (Dec 0 (- 1))) = 0"
    by (simp add: dval_def power_int_def power2_eq_square)
  ultimately have "\<exists>r. calculate_enhanced_profit (Dec 0 (- 1)) (Dec 10000 0) (Dec 10002 0)
      (Dec 0 0) (Dec 200 (- 2)) = Inr r \<and> dval (net_profit r) = 0 \<and> \<not> is_profitable r"
    by auto
  with f show ?thesis by blast
qed

text \<open>
  Whenever the function returns, \<open>is_profitable\<close> is the strict test on the returned net
  profit: a net profit of zero is not profitable.
\<close>

lemma is_profitable_strict:
  "calculate_enhanced_profit flash_fee loan gross bridge_fee_usd gas_cost_usd = Inr r \<Longrightarrow>
   is_profitable r = (0 < dval (net_profit r))"
  by (auto simp add: calculate_enhanced_profit_def and_then_def Let_def dec_less_iff dval_def
      split: sum.splits)

section \<open>Properties of the execution modes\<close>

lemma str_int_examples: "str_int 137 = ''137''" "str_int 1 = ''1''"
  by code_simp+

text \<open>
  Recording a result never changes \<open>total_trades\<close>, \<open>total_volume_usd\<close> or the limits of
  the executor.
\<close>

lemma deliver_unchanged:
  "total_trades (fst (deliver faults tid result s)) = total_trades (fst s)"
  "total_volume_usd (fst (deliver faults tid result s)) = total_volume_usd (fst s)"
  "redis_enabled (fst (deliver faults tid result s)) = redis_enabled (fst s)"
  by (simp_all add: deliver_def record_execution_result_def Let_def split: sum.splits)

text \<open>
  C3, as the claim states it, fails: nothing records which trade ids were already
  delivered. Delivering the same successful result for \<open>LIVE_137_1\<close> twice to a new
  executor leaves \<open>successful_trades = 1\<close> and \<open>total_profit = 10\<close> after the first call
  and \<open>successful_trades = 2\<close> and \<open>total_profit = 20\<close> after the second.
\<close>

theorem record_execution_result_counts_twice:
  "successful_trades
     (fst (deliver no_faults ''LIVE_137_1'' success_report (new_live_executor, empty_redis))) = 1 \<and>
   total_profit
     (fst (deliver no_faults ''LIVE_137_1'' success_report (new_live_executor, empty_redis)))
     = Dec 10 0 \<and>
   successful_trades
     (fst (deliver no_faults ''LIVE_137_1'' success_report
        (deliver no_faults ''LIVE_137_1'' success_report (new_live_executor, empty_redis)))) = 2 \<and>
   total_profit
     (fst (deliver no_faults ''LIVE_137_1'' success_report
        (deliver no_faults ''LIVE_137_1'' success_report (new_live_executor, empty_redis))))
     = Dec 20 0"
  by (simp add: deliver_def record_execution_result_def success_report_def new_live_executor_def
      empty_redis_def no_faults_def dec_add_def exact_add_def dec_fix_def ndigits.simps Let_def
      decimal_context)

text \<open>
  C3, amended. A second delivery of the same \<open>(trade_id, result)\<close> leaves
  \<open>successful_trades\<close> and \<open>total_profit\<close> unchanged when the status of the result is not
  \<open>SUCCESS\<close>. For a result with status \<open>SUCCESS\<close> it increments \<open>successful_trades\<close> by 1
  again and adds \<open>actual_profit\<close> to \<open>total_profit\<close> again (unless that sum overflows):
  recording is not idempotent per trade id. \<open>total_trades\<close> and \<open>total_volume_usd\<close> are
  not changed by any delivery.
\<close>

theorem record_execution_result_second_delivery:
  "(if report_status result = Some ''SUCCESS''
    then successful_trades (fst (deliver faults' tid result (deliver faults tid result s))) =
           successful_trades (fst (deliver faults tid result s)) + 1 \<and>
         (case dec_add (total_profit (fst (deliver faults tid result s)))
                 (case actual_profit result of None \<Rightarrow> Dec 0 0 | Some p \<Rightarrow> p) of
            Inl e \<Rightarrow> total_profit (fst (deliver faults' tid result (deliver faults tid result s))) =
                      total_profit (fst (deliver faults tid result s))
          | Inr t \<Rightarrow> total_profit (fst (deliver faults' tid result (deliver faults tid result s))) = t)
    else successful_trades (fst (deliver faults' tid result (deliver faults tid result s))) =
           successful_trades (fst (deliver faults tid result s)) \<and>
         total_profit (fst (deliver faults' tid result (deliver faults tid result s))) =
           total_profit (fst (deliver faults tid result s))) \<and>
   total_trades (fst (deliver faults' tid result (deliver faults tid result s))) =
     total_trades (fst (deliver faults tid result s)) \<and>
   total_volume_usd (fst (deliver faults' tid result (deliver faults tid result s))) =
     total_volume_usd (fst (deliver faults tid result s))"
proof -
  define s1 where "s1 = deliver faults tid result s"
  have "(if report_status result = Some ''SUCCESS''
    then successful_trades (fst (deliver faults' tid result s1)) =
           successful_trades (fst s1) + 1 \<and>
         (case dec_add (total_profit (fst s1))
                 (case actual_profit result of None \<Rightarrow> Dec 0 0 | Some p \<Rightarrow> p) of
            Inl e \<Rightarrow> total_profit (fst (deliver faults' tid result s1)) = total_profit (fst s1)
          | Inr t \<Rightarrow> total_profit (fst (deliver faults' tid result s1)) = t)
    else successful_trades (fst (deliver faults' tid result s1)) = successful_trades (fst s1) \<and>
         total_profit (fst (deliver faults' tid result s1)) = total_profit (fst s1))"
    by (simp add: deliver_def record_execution_result_def Let_def split: sum.splits)
  then show ?thesis
    unfolding s1_def by (auto simp add: deliver_unchanged)
qed

text \<open>
  A signal that fails a pre-execution check and has the key \<open>chainId\<close> is answered with
  \<open>FAILED\<close> and the reason of the check; the Redis server (the pending set and the
  published messages) is as before, and the executor has only counted the trade.
\<close>

lemma live_execute_trade_rejected:
  assumes "chainId trade_signal = Some cid"
    and "\<not> fst (pre_execution_checks getenv faults (self\<lparr>total_trades := total_trades self + 1\<rparr>)
               redis trade_signal)"
  shows "live_execute_trade getenv faults now self redis trade_signal =
     (Inr (failed_result (''LIVE_'' @ str_int cid @ ''_'' @ str_int (total_trades self + 1))
        (snd (pre_execution_checks getenv faults (self\<lparr>total_trades := total_trades self + 1\<rparr>)
               redis trade_signal))),
      self\<lparr>total_trades := total_trades self + 1\<rparr>, redis)"
proof -
  obtain is_valid why where checks:
    "pre_execution_checks getenv faults (self\<lparr>total_trades := total_trades self + 1\<rparr>)
       redis trade_signal = (is_valid, why)"
    by (cases "pre_execution_checks getenv faults (self\<lparr>total_trades := total_trades self + 1\<rparr>)
       redis trade_signal")
  with assms(2) have "\<not> is_valid" by simp
  with assms(1) checks show ?thesis
    by (simp add: live_execute_trade_def Let_def)
qed

text \<open>
  The scenario of the specification: an expected profit of 4.99 against the minimum of
  5.0 is rejected by the first check, and the signal is not marked pending.
\<close>

lemma live_execute_trade_below_minimum:
  "live_execute_trade configured_env no_faults now new_live_executor empty_redis
     (example_signal\<lparr>expected_profit := Some (Dec 499 (- 2))\<rparr>) =
   (Inr (failed_result ''LIVE_137_1'' (ProfitBelowMinimum (Dec 499 (- 2)) (Dec 50 (- 1)))),
    new_live_executor\<lparr>total_trades := 1\<rparr>, empty_redis)"
proof -
  have "pre_execution_checks configured_env no_faults (new_live_executor\<lparr>total_trades := 0 + 1\<rparr>)
      empty_redis (example_signal\<lparr>expected_profit := Some (Dec 499 (- 2))\<rparr>) =
    (False, ProfitBelowMinimum (Dec 499 (- 2)) (Dec 50 (- 1)))"
    by (simp add: pre_execution_checks_def new_live_executor_def dec_less_def exact_add_def neg_def)
  then show ?thesis
    using live_execute_trade_rejected [of "example_signal\<lparr>expected_profit := Some (Dec 499 (- 2))\<rparr>"
        137 configured_env no_faults new_live_executor empty_redis now]
    by (simp add: example_signal_def new_live_executor_def str_int_examples)
qed

text \<open>A signal without the key \<open>chainId\<close> fails the check of the required fields at the latest.\<close>

lemma pre_execution_checks_missing_chainId:
  "fst (pre_execution_checks getenv faults self redis (trade_signal\<lparr>chainId := None\<rparr>)) = False"
  by (simp add: pre_execution_checks_def Let_def required_fields_def has_key_def)

text \<open>
  C5. The claim holds for every signal that has the key \<open>chainId\<close> (lemma
  \<open>live_execute_trade_rejected\<close>). For a signal without it, the pre-execution checks
  fail (\<open>chainId\<close> is one of the required fields), but \<open>execute_trade\<close> does not return
  \<open>FAILED\<close>: it reads \<open>trade_signal['chainId']\<close> for the trade id before it runs the
  checks, and raises \<open>KeyError\<close>. Nothing is added to the pending set or published.
\<close>

theorem live_execute_trade_missing_chainId:
  "fst (pre_execution_checks getenv faults self redis (trade_signal\<lparr>chainId := None\<rparr>)) = False \<and>
   live_execute_trade getenv faults now self redis (trade_signal\<lparr>chainId := None\<rparr>) =
     (Inl (KeyError ''chainId''), self\<lparr>total_trades := total_trades self + 1\<rparr>, redis)"
  by (simp add: pre_execution_checks_missing_chainId live_execute_trade_def Let_def)

text \<open>Each executor counts the trade first, on every path.\<close>

lemma live_execute_trade_counts:
  "total_trades (fst (snd (live_execute_trade getenv faults now self redis trade_signal))) =
     total_trades self + 1"
  by (simp add: live_execute_trade_def Let_def split: option.splits prod.splits)

lemma paper_execute_trade_counts:
  "paper_total_trades (fst (snd (paper_execute_trade faults now self redis trade_signal))) =
     paper_total_trades self + 1"
  by (simp add: paper_execute_trade_def Let_def split: option.splits sum.splits)

text \<open>
  C8. \<open>HybridExecutionManager.execute_trade\<close> hands the signal to the live executor when
  the confidence score (0.0 when the key is missing) is at least the threshold, and to
  the paper simulator otherwise. In the first case the result, the live executor and
  the Redis server are those of the live executor's \<open>execute_trade\<close>, which has counted
  one more trade, and the paper simulator is untouched; in the second case it is the
  other way round. So the signal reaches the live executor if and only if
  \<open>confidence >= threshold\<close>, and equality routes to Live.
\<close>

theorem hybrid_routes_by_confidence:
  "(case hybrid_execute_trade getenv faults now self redis trade_signal of
      (result, self', redis') \<Rightarrow>
        if confidence_threshold self \<le> (case confidence_score trade_signal of None \<Rightarrow> 0 | Some c \<Rightarrow> c)
        then (result, live_executor self', redis') =
               live_execute_trade getenv faults now (live_executor self) redis trade_signal \<and>
             total_trades (live_executor self') = total_trades (live_executor self) + 1 \<and>
             paper_simulator self' = paper_simulator self
        else (result, paper_simulator self', redis') =
               paper_execute_trade faults now (paper_simulator self) redis trade_signal \<and>
             paper_total_trades (paper_simulator self') =
               paper_total_trades (paper_simulator self) + 1 \<and>
             live_executor self' = live_executor self)"
proof (cases "confidence_threshold self \<le> (case confidence_score trade_signal of None \<Rightarrow> 0 | Some c \<Rightarrow> c)")
  case True
  with live_execute_trade_counts [of getenv faults now "live_executor self" redis trade_signal]
  show ?thesis
    by (auto simp add: hybrid_execute_trade_def Let_def split: prod.splits)
next
  case False
  with paper_execute_trade_counts [of faults now "paper_simulator self" redis trade_signal]
  show ?thesis
    by (auto simp add: hybrid_execute_trade_def Let_def split: prod.splits)
qed

text \<open>
  The scenario of the specification: with threshold 0.85, a signal of confidence 0.85
  is submitted by the live executor; one of confidence 0.84 is simulated.
\<close>

lemma hybrid_tie_goes_live:
  "map_sum id status (fst (hybrid_execute_trade configured_env no_faults now
       (new_hybrid_manager (85 / 100)) empty_redis
       (example_signal\<lparr>confidence_score := Some (85 / 100)\<rparr>))) = Inr SUBMITTED"
  "map_sum id status (fst (hybrid_execute_trade configured_env no_faults now
       (new_hybrid_manager (85 / 100)) empty_redis
       (example_signal\<lparr>confidence_score := Some (84 / 100)\<rparr>))) = Inr SIMULATED"
  by (simp_all add: hybrid_execute_trade_def new_hybrid_manager_def live_execute_trade_def
      paper_execute_trade_def pre_execution_checks_def new_live_executor_def
      new_paper_simulator_def example_signal_def empty_redis_def no_faults_def configured_env_def
      not_configured_def required_fields_def has_key_def dec_less_def dec_mul_def dec_sub_def
      dec_add_def exact_add_def exact_mul_def neg_def dec_fix_def ndigits.simps Let_def
      decimal_context)

section \<open>Properties of the opportunity graph\<close>

text \<open>Building the nodes keeps the edges and the inventory, and keeps the index sound.\<close>

lemma add_token_node_frame:
  "edges (graph (add_token_node c item self)) = edges (graph self)"
  "inventory (add_token_node c item self) = inventory self"
  by (simp_all add: add_token_node_def add_node_def Let_def)

lemma add_token_node_well_indexed:
  "well_indexed self \<Longrightarrow> well_indexed (add_token_node c item self)"
  unfolding well_indexed_def
  by (auto simp add: add_token_node_def add_node_def Let_def nth_append less_Suc_eq)

lemma add_token_node_dom:
  "dom (node_indices (add_token_node c item self)) = insert (c, fst item) (dom (node_indices self))"
  by (auto simp add: add_token_node_def add_node_def Let_def)

lemma fold_tokens_frame:
  "edges (graph (fold (add_token_node c) items self)) = edges (graph self) \<and>
   inventory (fold (add_token_node c) items self) = inventory self"
  by (induction items arbitrary: self) (simp_all add: add_token_node_frame)

lemma fold_tokens_well_indexed:
  "well_indexed self \<Longrightarrow> well_indexed (fold (add_token_node c) items self)"
  by (induction items arbitrary: self) (simp_all add: add_token_node_well_indexed)

lemma fold_tokens_dom:
  "dom (node_indices (fold (add_token_node c) items self)) =
     dom (node_indices self) \<union> (\<lambda>item. (c, fst item)) ` set items"
  by (induction items arbitrary: self) (auto simp add: add_token_node_dom)

lemma build_graph_nodes_frame:
  "edges (graph (fold (\<lambda>entry. fold (add_token_node (fst entry)) (snd entry)) stock self)) =
     edges (graph self) \<and>
   inventory (fold (\<lambda>entry. fold (add_token_node (fst entry)) (snd entry)) stock self) =
     inventory self"
  by (induction stock arbitrary: self) (simp_all add: fold_tokens_frame)

lemma build_graph_nodes_well_indexed:
  "well_indexed self \<Longrightarrow>
   well_indexed (fold (\<lambda>entry. fold (add_token_node (fst entry)) (snd entry)) stock self)"
  by (induction stock arbitrary: self) (simp_all add: fold_tokens_well_indexed)

lemma build_graph_nodes_dom:
  "dom (node_indices (fold (\<lambda>entry. fold (add_token_node (fst entry)) (snd entry)) stock self)) =
     dom (node_indices self) \<union>
     (\<Union>entry \<in> set stock. (\<lambda>item. (fst entry, fst item)) ` set (snd entry))"
  by (induction stock arbitrary: self) (auto simp add: fold_tokens_dom)

lemma nodes_built:
  "well_indexed (build_graph_nodes (new_brain stock))"
  "edges (graph (build_graph_nodes (new_brain stock))) = []"
  "inventory (build_graph_nodes (new_brain stock)) = stock"
  "dom (node_indices (build_graph_nodes (new_brain stock))) =
     (\<Union>entry \<in> set stock. (\<lambda>item. (fst entry, fst item)) ` set (snd entry))"
proof -
  have "well_indexed (new_brain stock)"
    by (simp add: well_indexed_def new_brain_def)
  then show "well_indexed (build_graph_nodes (new_brain stock))"
    unfolding build_graph_nodes_def by (simp add: build_graph_nodes_well_indexed)
  show "edges (graph (build_graph_nodes (new_brain stock))) = []"
    unfolding build_graph_nodes_def by (simp add: build_graph_nodes_frame) (simp add: new_brain_def)
  show "inventory (build_graph_nodes (new_brain stock)) = stock"
    unfolding build_graph_nodes_def by (simp add: build_graph_nodes_frame) (simp add: new_brain_def)
  show "dom (node_indices (build_graph_nodes (new_brain stock))) =
     (\<Union>entry \<in> set stock. (\<lambda>item. (fst entry, fst item)) ` set (snd entry))"
    unfolding build_graph_nodes_def by (simp add: build_graph_nodes_dom) (simp add: new_brain_def)
qed

lemma set_pairs: "ab \<in> set (pairs xs) \<Longrightarrow> fst ab \<in> set xs \<and> snd ab \<in> set xs"
  by (induction xs) auto

lemma length_pairs: "2 * length (pairs xs) = length xs * (length xs - 1)"
proof (induction xs)
  case Nil
  show ?case by simp
next
  case (Cons x xs)
  have "2 * length xs + length xs * (length xs - 1) = Suc (length xs) * length xs"
    by (cases "length xs") simp_all
  with Cons.IH show ?case by simp
qed


text \<open>The edges of a pair of placed chains, and what the filters and the chains say of them.\<close>

lemma bridge_pair_placed:
  assumes "placed idx g s (fst ab)" and "placed idx g s (snd ab)"
  shows "length (bridge_pair idx s ab) = 2"
    and "map (edge_chains g) (bridge_pair idx s ab) = [(fst ab, snd ab), (snd ab, fst ab)]"
    and "bridge_edges_of (g\<lparr>edges := es\<rparr>) s' @ (if s' = s then bridge_pair idx s ab else []) =
         bridge_edges_of (g\<lparr>edges := es @ bridge_pair idx s ab\<rparr>) s'"
  using assms
  by (auto simp add: placed_def bridge_pair_def edge_chains_def bridge_edges_of_def bridge_def)

lemma add_bridge_placed:
  assumes "placed idx g s (fst ab)" and "placed idx g s (snd ab)"
  shows "add_bridge idx s ab g = Inr (g\<lparr>edges := edges g @ bridge_pair idx s ab\<rparr>)"
  using assms
  by (auto simp add: placed_def add_bridge_def lookup_node_def add_edge_def and_then_def
      bridge_pair_def)

lemma edge_chains_edges [simp]: "edge_chains (g\<lparr>edges := es\<rparr>) = edge_chains g"
  by (simp add: fun_eq_iff edge_chains_def)

lemma placed_edges [simp]: "placed idx (g\<lparr>edges := es\<rparr>) s c = placed idx g s c"
  by (simp add: placed_def)

lemma for_each_pairs:
  assumes "\<forall>ab \<in> set ps. placed idx g s (fst ab) \<and> placed idx g s (snd ab)"
  shows "for_each (add_bridge idx s) ps g =
     Inr (g\<lparr>edges := edges g @ concat (map (bridge_pair idx s) ps)\<rparr>)"
  using assms
proof (induction ps arbitrary: g)
  case Nil
  show ?case by simp
next
  case (Cons ab ps)
  let ?g = "g\<lparr>edges := edges g @ bridge_pair idx s ab\<rparr>"
  from Cons.prems have "add_bridge idx s ab g = Inr ?g"
    by (simp add: add_bridge_placed)
  moreover from Cons.prems have "\<forall>ab \<in> set ps. placed idx ?g s (fst ab) \<and> placed idx ?g s (snd ab)"
    by simp
  from Cons.IH [OF this] have "for_each (add_bridge idx s) ps ?g =
      Inr (g\<lparr>edges := edges g @ concat (map (bridge_pair idx s) (ab # ps))\<rparr>)"
    by simp
  ultimately show ?case by (simp add: and_then_def)
qed

lemma for_each_symbols:
  assumes "\<forall>s \<in> set syms. \<forall>c \<in> set (cwa s). placed idx g s c"
  shows "for_each (\<lambda>s. for_each (add_bridge idx s) (pairs (cwa s))) syms g =
     Inr (g\<lparr>edges := edges g @
            concat (map (\<lambda>s. concat (map (bridge_pair idx s) (pairs (cwa s)))) syms)\<rparr>)"
  using assms
proof (induction syms arbitrary: g)
  case Nil
  show ?case by simp
next
  case (Cons s syms)
  let ?g = "g\<lparr>edges := edges g @ concat (map (bridge_pair idx s) (pairs (cwa s)))\<rparr>"
  from Cons.prems have "\<forall>ab \<in> set (pairs (cwa s)). placed idx g s (fst ab) \<and> placed idx g s (snd ab)"
    by (auto dest: set_pairs)
  then have "for_each (add_bridge idx s) (pairs (cwa s)) g = Inr ?g"
    by (rule for_each_pairs)
  moreover from Cons.prems have "\<forall>s \<in> set syms. \<forall>c \<in> set (cwa s). placed idx ?g s c"
    by simp
  from Cons.IH [OF this] have "for_each (\<lambda>s. for_each (add_bridge idx s) (pairs (cwa s))) syms ?g =
      Inr (g\<lparr>edges := edges g @
            concat (map (\<lambda>s. concat (map (bridge_pair idx s) (pairs (cwa s)))) (s # syms))\<rparr>)"
    by simp
  ultimately show ?case by (simp add: and_then_def)
qed

text \<open>The edges of one symbol are between nodes of that symbol only.\<close>

lemma filter_block:
  assumes "\<forall>ab \<in> set ps. placed idx g s (fst ab) \<and> placed idx g s (snd ab)"
  shows "bridge_edges_of (g\<lparr>edges := concat (map (bridge_pair idx s) ps)\<rparr>) s' =
     (if s' = s then concat (map (bridge_pair idx s) ps) else [])"
  using assms
proof (induction ps)
  case Nil
  show ?case by (simp add: bridge_edges_of_def)
next
  case (Cons ab ps)
  from Cons.prems have p: "placed idx g s (fst ab)" "placed idx g s (snd ab)" by simp_all
  have "bridge_edges_of (g\<lparr>edges := concat (map (bridge_pair idx s) (ab # ps))\<rparr>) s' =
      bridge_edges_of (g\<lparr>edges := bridge_pair idx s ab\<rparr>) s' @
      bridge_edges_of (g\<lparr>edges := concat (map (bridge_pair idx s) ps)\<rparr>) s'"
    by (simp add: bridge_edges_of_def)
  moreover from bridge_pair_placed(3) [OF p, of "[]" s']
  have "bridge_edges_of (g\<lparr>edges := bridge_pair idx s ab\<rparr>) s' =
      (if s' = s then bridge_pair idx s ab else [])"
    by (simp add: bridge_edges_of_def)
  ultimately show ?case using Cons.IH Cons.prems by simp
qed

lemma concat_select:
  "distinct xs \<Longrightarrow> y \<in> set xs \<Longrightarrow> concat (map (\<lambda>x. if y = x then f x else []) xs) = f y"
  by (induction xs) auto

lemma concat_select_none:
  "y \<notin> set xs \<Longrightarrow> concat (map (\<lambda>x. if y = x then f x else []) xs) = []"
  by (induction xs) auto

lemma filter_blocks:
  assumes "\<forall>s \<in> set syms. \<forall>c \<in> set (cwa s). placed idx g s c"
  shows "bridge_edges_of
       (g\<lparr>edges := concat (map (\<lambda>s. concat (map (bridge_pair idx s) (pairs (cwa s)))) syms)\<rparr>) s' =
     concat (map (\<lambda>s. if s' = s then concat (map (bridge_pair idx s) (pairs (cwa s))) else []) syms)"
  using assms
proof (induction syms)
  case Nil
  show ?case by (simp add: bridge_edges_of_def)
next
  case (Cons s syms)
  from Cons.prems have "\<forall>ab \<in> set (pairs (cwa s)). placed idx g s (fst ab) \<and> placed idx g s (snd ab)"
    by (auto dest: set_pairs)
  from filter_block [OF this, of s'] Cons.IH Cons.prems show ?case
    by (simp add: bridge_edges_of_def)
qed

text \<open>The ordered pairs of distinct elements of a list without repetition, from \<open>pairs\<close>.\<close>

lemma both_ways_head:
  "x \<notin> set ys \<Longrightarrow> distinct ys \<Longrightarrow>
   distinct (concat (map (\<lambda>ab. [(fst ab, snd ab), (snd ab, fst ab)]) (map (Pair x) ys))) \<and>
   set (concat (map (\<lambda>ab. [(fst ab, snd ab), (snd ab, fst ab)]) (map (Pair x) ys))) =
     (\<lambda>y. (x, y)) ` set ys \<union> (\<lambda>y. (y, x)) ` set ys"
  by (induction ys) auto

lemma both_ways:
  "distinct xs \<Longrightarrow>
   distinct (concat (map (\<lambda>ab. [(fst ab, snd ab), (snd ab, fst ab)]) (pairs xs))) \<and>
   set (concat (map (\<lambda>ab. [(fst ab, snd ab), (snd ab, fst ab)]) (pairs xs))) =
     {(a, b). a \<in> set xs \<and> b \<in> set xs \<and> a \<noteq> b}"
proof (induction xs)
  case Nil
  show ?case by simp
next
  case (Cons x xs)
  from Cons.prems have x: "x \<notin> set xs" "distinct xs" by simp_all
  from both_ways_head [OF x] Cons.IH [OF x(2)] x(1) show ?case
    by (simp del: map_map) blast
qed

lemma edge_chains_block:
  assumes "\<forall>ab \<in> set ps. placed idx g s (fst ab) \<and> placed idx g s (snd ab)"
  shows "map (edge_chains g) (concat (map (bridge_pair idx s) ps)) =
     concat (map (\<lambda>ab. [(fst ab, snd ab), (snd ab, fst ab)]) ps)"
  using assms by (induction ps) (simp_all add: bridge_pair_placed(2))

lemma length_block:
  assumes "\<forall>ab \<in> set ps. placed idx g s (fst ab) \<and> placed idx g s (snd ab)"
  shows "length (concat (map (bridge_pair idx s) ps)) = 2 * length ps"
  using assms by (induction ps) (auto simp add: bridge_pair_placed(1))

text \<open>With one entry per chain, the list the code computes names the chains that carry the symbol.\<close>

lemma chains_with_asset_carriers:
  assumes "distinct (map fst stock)"
  shows "length (chains_with_asset stock s) = chains_carrying stock s"
    and "set (chains_with_asset stock s) = carriers stock s"
    and "distinct (chains_with_asset stock s)"
proof -
  have "map_of stock (fst entry) = Some (snd entry)" if "entry \<in> set stock" for entry
    using assms that by (cases entry) simp
  then have "filter ((\<lambda>cid. case map_of stock cid of None \<Rightarrow> False
                     | Some tokens \<Rightarrow> s \<in> set (map fst tokens)) \<circ> fst) stock =
      filter (\<lambda>entry. s \<in> fst ` set (snd entry)) stock"
    by (intro filter_cong) simp_all
  then have eq: "chains_with_asset stock s =
      map fst (filter (\<lambda>entry. s \<in> fst ` set (snd entry)) stock)"
    by (simp add: chains_with_asset_def filter_map)
  show "length (chains_with_asset stock s) = chains_carrying stock s"
    by (simp add: eq chains_carrying_def)
  show "set (chains_with_asset stock s) = carriers stock s"
    by (simp only: eq carriers_def)
  from assms show "distinct (chains_with_asset stock s)"
    by (simp add: chains_with_asset_def)
qed

text \<open>No symbol is listed twice in \<open>BRIDGE_ASSETS\<close>.\<close>

lemma distinct_BRIDGE_ASSETS: "distinct BRIDGE_ASSETS"
  by (simp add: BRIDGE_ASSETS_def)

text \<open>Every chain the code lists for a symbol has its node in the graph.\<close>

lemma chains_with_asset_placed:
  assumes "c \<in> set (chains_with_asset stock s)"
  shows "placed (node_indices (build_graph_nodes (new_brain stock)))
           (graph (build_graph_nodes (new_brain stock))) s c"
proof -
  from assms obtain tokens where "map_of stock c = Some tokens" "s \<in> fst ` set tokens"
    by (auto simp add: chains_with_asset_def split: option.splits)
  then have "(c, tokens) \<in> set stock" "s \<in> fst ` set tokens"
    by (auto dest: map_of_SomeD)
  then have "(c, s) \<in> dom (node_indices (build_graph_nodes (new_brain stock)))"
    unfolding nodes_built(4) by force
  then obtain i where "node_indices (build_graph_nodes (new_brain stock)) (c, s) = Some i"
    by auto
  with nodes_built(1) [of stock] show ?thesis
    by (auto simp add: well_indexed_def placed_def)
qed


text \<open>
  C9. For an inventory with one entry per chain (a dictionary) and a symbol of
  \<open>BRIDGE_ASSETS\<close> that \<open>n\<close> chains carry, the graph-building step succeeds, and the
  bridge edges of the graph for that symbol are exactly \<open>n * (n - 1)\<close>: they join the
  nodes of that symbol on two different carrying chains, one directed edge for every
  ordered pair of different chains (so two per unordered pair of chains, one in each
  direction, and no loop). The graph has no other edges than the bridge edges of the
  symbols of \<open>BRIDGE_ASSETS\<close>.
\<close>

theorem build_graph_bridge_edges:
  assumes "distinct (map fst stock)" and "s \<in> set BRIDGE_ASSETS"
  shows "\<exists>self. build_graph stock = Inr self \<and>
     length (bridge_edges_of (graph self) s) =
       chains_carrying stock s * (chains_carrying stock s - 1) \<and>
     distinct (map (edge_chains (graph self)) (bridge_edges_of (graph self) s)) \<and>
     set (map (edge_chains (graph self)) (bridge_edges_of (graph self) s)) =
       {(a, b). a \<in> carriers stock s \<and> b \<in> carriers stock s \<and> a \<noteq> b} \<and>
     edges (graph self) = concat (map (bridge_edges_of (graph self)) BRIDGE_ASSETS)"
proof -
  let ?b = "build_graph_nodes (new_brain stock)"
  let ?idx = "node_indices ?b"
  let ?cwa = "chains_with_asset stock"
  let ?block = "\<lambda>s. concat (map (bridge_pair ?idx s) (pairs (?cwa s)))"
  let ?g = "(graph ?b)\<lparr>edges := concat (map ?block BRIDGE_ASSETS)\<rparr>"
  have placed: "\<forall>s \<in> set BRIDGE_ASSETS. \<forall>c \<in> set (?cwa s). placed ?idx (graph ?b) s c"
    by (simp add: chains_with_asset_placed)
  have pairs_placed: "\<forall>ab \<in> set (pairs (?cwa s)).
      placed ?idx (graph ?b) s (fst ab) \<and> placed ?idx (graph ?b) s (snd ab)" for s
    by (auto dest: set_pairs simp add: chains_with_asset_placed)
  from for_each_symbols [OF placed] have built: "build_graph stock = Inr (?b\<lparr>graph := ?g\<rparr>)"
    by (simp add: build_graph_def build_bridge_edges_def and_then_def nodes_built(2,3))
  have of_symbol: "bridge_edges_of ?g s' = ?block s'" if "s' \<in> set BRIDGE_ASSETS" for s'
    using filter_blocks [OF placed, of s'] that
    by (simp add: concat_select distinct_BRIDGE_ASSETS)
  have chains: "map (edge_chains ?g) (?block s) =
      concat (map (\<lambda>ab. [(fst ab, snd ab), (snd ab, fst ab)]) (pairs (?cwa s)))"
    using edge_chains_block [OF pairs_placed, of s] by simp
  have "length (?block s) = chains_carrying stock s * (chains_carrying stock s - 1)"
    using length_block [OF pairs_placed, of s]
    by (simp add: length_pairs chains_with_asset_carriers(1) [OF assms(1)])
  moreover have "distinct (map (edge_chains ?g) (?block s))"
    using both_ways [OF chains_with_asset_carriers(3) [OF assms(1), of s]]
    by (simp only: chains)
  moreover have "set (map (edge_chains ?g) (?block s)) =
      {(a, b). a \<in> carriers stock s \<and> b \<in> carriers stock s \<and> a \<noteq> b}"
    using both_ways [OF chains_with_asset_carriers(3) [OF assms(1), of s]]
    by (simp only: chains chains_with_asset_carriers(2) [OF assms(1)])
  moreover have "edges ?g = concat (map (bridge_edges_of ?g) BRIDGE_ASSETS)"
    by (simp add: of_symbol cong: map_cong)
  ultimately show ?thesis
    using built of_symbol [OF assms(2)] by simp
qed

text \<open>
  The scenario of the specification: USDC is on the three chains of \<open>three_chains\<close>, and
  the graph has 6 directed bridge edges for it, one for each ordered pair of different
  chains.
\<close>

theorem build_graph_bridge_edges_witness:
  "distinct (map fst three_chains) \<and> ''USDC'' \<in> set BRIDGE_ASSETS \<and>
   chains_carrying three_chains ''USDC'' = 3 \<and>
   carriers three_chains ''USDC'' = {137, 1, 42161} \<and>
   (\<exists>self. build_graph three_chains = Inr self \<and>
      length (bridge_edges_of (graph self) ''USDC'') = 6 \<and>
      set (map (edge_chains (graph self)) (bridge_edges_of (graph self) ''USDC'')) =
        {(137, 1), (1, 137), (137, 42161), (42161, 137), (1, 42161), (42161, 1)})"
proof -
  have d: "distinct (map fst three_chains)" and b: "''USDC'' \<in> set BRIDGE_ASSETS"
    and n: "chains_carrying three_chains ''USDC'' = 3"
    and c: "carriers three_chains ''USDC'' = {137, 1, 42161}"
    by (simp_all add: three_chains_def token_entry_def BRIDGE_ASSETS_def chains_carrying_def
        carriers_def)
  have ordered: "{(a, b). a \<in> {137, 1, 42161 :: int} \<and> b \<in> {137, 1, 42161} \<and> a \<noteq> b} =
      {(137, 1), (1, 137), (137, 42161), (42161, 137), (1, 42161), (42161, 1)}"
    by auto
  from build_graph_bridge_edges [OF d b] obtain self where
    "build_graph three_chains = Inr self"
    "length (bridge_edges_of (graph self) ''USDC'') =
       chains_carrying three_chains ''USDC'' * (chains_carrying three_chains ''USDC'' - 1)"
    "set (map (edge_chains (graph self)) (bridge_edges_of (graph self) ''USDC'')) =
       {(a, b). a \<in> carriers three_chains ''USDC'' \<and> b \<in> carriers three_chains ''USDC'' \<and> a \<noteq> b}"
    by blast
  then have "\<exists>self. build_graph three_chains = Inr self \<and>
      length (bridge_edges_of (graph self) ''USDC'') = 6 \<and>
      set (map (edge_chains (graph self)) (bridge_edges_of (graph self) ''USDC'')) =
        {(137, 1), (1, 137), (137, 42161), (42161, 137), (1, 42161), (42161, 1)}"
    unfolding n c ordered by auto
  with d b n c show ?thesis by blast
qed

end
